theory Spec2Isabelle
  imports Main "HOL-Library.AList" "HOL-Library.Sublist"
begin

section \<open>Space Lua values, environments and stack frames\<close>

text \<open>
  The module \<^verbatim>\<open>common/space_lua/stdlib/space_lua.ts\<close> imports its value model from
  \<^verbatim>\<open>runtime.ts\<close>, and both modules import the tree utilities of \<^verbatim>\<open>plug-api/lib/tree.ts\<close>.
  Only what the functions of the two modules touch is represented here.
\<close>

text \<open>
  Modelled from the spec: the scripting values of \<^verbatim>\<open>runtime.ts\<close>.  An augmentation is an
  ordered mapping of extra bindings from names to values, itself a value (a table); an
  evaluation result may be multi-valued.
\<close>

datatype LuaValue =
    LuaNil
  | LuaBoolean bool
  | LuaNumber int
  | LuaString string
  | LuaTable "(string \<times> LuaValue) list"
  | LuaMultiRes "LuaValue list"

text \<open>
  Modelled from the spec: the two table methods used on an augmentation,
  \<^verbatim>\<open>envAugmentation.keys()\<close>, its keys in order, and \<^verbatim>\<open>envAugmentation.rawGet(key)\<close>, the
  value bound to a key (nil for a key that is not there).
\<close>

definition keys :: "(string \<times> LuaValue) list \<Rightarrow> string list" where
  "keys t = map fst t"

definition rawGet :: "(string \<times> LuaValue) list \<Rightarrow> string \<Rightarrow> LuaValue" where
  "rawGet t k = (case map_of t k of None \<Rightarrow> LuaNil | Some v \<Rightarrow> v)"

text \<open>
  Modelled from the spec: the Environment (\<^verbatim>\<open>LuaEnv\<close>), a mapping from name to value with an
  optional parent for fallback lookup.  \<^verbatim>\<open>new LuaEnv(parent)\<close> is \<open>LuaEnv [] (Some parent)\<close>;
  \<^verbatim>\<open>setLocal\<close> defines or overwrites the name in this scope only.
\<close>

datatype LuaEnv = LuaEnv (variables: "(string \<times> LuaValue) list") (parent: "LuaEnv option")

text \<open>Modelled from the spec: \<^verbatim>\<open>env.setLocal(name, value)\<close>, a write to the current scope.\<close>

fun setLocal :: "LuaEnv \<Rightarrow> string \<Rightarrow> LuaValue \<Rightarrow> LuaEnv" where
  "setLocal (LuaEnv vs p) name v = LuaEnv (AList.update name v vs) p"

text \<open>
  Modelled from the spec: \<^verbatim>\<open>env.get(name)\<close>, the lookup in the current scope with fallback to
  the parent; \<open>None\<close> where no scope of the chain defines the name.
\<close>

fun get :: "LuaEnv \<Rightarrow> string \<Rightarrow> LuaValue option" where
  "get (LuaEnv vs None) name = map_of vs name"
| "get (LuaEnv vs (Some p)) name =
     (case map_of vs name of Some v \<Rightarrow> Some v | None \<Rightarrow> get p name)"

text \<open>
  Modelled from the spec: the Frame (\<^verbatim>\<open>LuaStackFrame\<close>), the per-evaluation context whose
  thread-local table may hold the handle of the Global Environment under \<^verbatim>\<open>"_GLOBAL"\<close>.
\<close>

record LuaStackFrame =
  threadLocal :: "(string \<times> LuaEnv) list"

text \<open>
  Exceptions are values.  The module itself raises a plain \<^verbatim>\<open>Error\<close> and a
  \<^verbatim>\<open>LuaRuntimeError\<close> (message and frame); \<open>TypeError\<close> is what JavaScript raises on a
  property read of \<^verbatim>\<open>undefined\<close>; \<open>OtherError\<close> (class name, message) stands for any other
  error class a collaborator throws.  \<open>message\<close> is the \<^verbatim>\<open>.message\<close> property.
\<close>

datatype error =
    Error string
  | LuaRuntimeError string LuaStackFrame
  | TypeError string
  | OtherError string string

fun message :: "error \<Rightarrow> string" where
  "message (Error m) = m"
| "message (LuaRuntimeError m sf) = m"
| "message (TypeError m) = m"
| "message (OtherError cls m) = m"

section \<open>Parse trees\<close>

text \<open>
  Modelled from the spec: the Parsed Document Tree (\<^verbatim>\<open>ParseTree\<close> of \<^verbatim>\<open>tree.ts\<close>), typed nodes
  with an optional kind tag, optional literal text and optional children.
\<close>

datatype ParseTree =
  ParseTree (type: "string option") (text': "string option") (children: "ParseTree list option")

text \<open>
  Modelled from the spec: the renderer (tree to text).  The text of a node is its literal
  text if it has one, else the texts of its children in order.
\<close>

fun renderToText :: "ParseTree \<Rightarrow> string" where
  "renderToText (ParseTree ty (Some s) cs) = s"
| "renderToText (ParseTree ty None (Some cs)) = concat (map renderToText cs)"
| "renderToText (ParseTree ty None None) = []"

text \<open>
  Modelled from the spec: the find-by-predicate utility, the matching nodes in document
  order, a matching node not being searched further.
\<close>

fun collectNodesMatching :: "(ParseTree \<Rightarrow> bool) \<Rightarrow> ParseTree \<Rightarrow> ParseTree list" where
  "collectNodesMatching matchFn (ParseTree ty tx cs) =
     (if matchFn (ParseTree ty tx cs) then [ParseTree ty tx cs]
      else (case cs of
              None \<Rightarrow> []
            | Some cs' \<Rightarrow> concat (map (collectNodesMatching matchFn) cs')))"

text \<open>
  Modelled from the spec: \<^verbatim>\<open>findNodeOfType(tree, nodeType)\<close>, the first node of the kind, the
  tree's own root included, or nothing.
\<close>

definition findNodeOfType :: "ParseTree \<Rightarrow> string \<Rightarrow> ParseTree option" where
  "findNodeOfType tree nodeType =
     (case collectNodesMatching (\<lambda>n. type n = Some nodeType) tree of
        [] \<Rightarrow> None
      | n # _ \<Rightarrow> Some n)"

text \<open>
  Asynchronous code runs its awaited steps one after the other; a computation takes the
  state of the world \<open>'w\<close> (everything the scripting runtime may mutate) and returns the
  outcome, an error or a value, with the new state.
\<close>

type_synonym ('w, 'a) io = "'w \<Rightarrow> (error + 'a) \<times> 'w"

text \<open>
  Modelled from the spec: \<^verbatim>\<open>replaceNodesMatchingAsync(tree, substituteFn)\<close>.  The caller keeps
  its own reference to the root and discards the return value, so the replacement happens
  inside the children lists: every child is offered to \<open>substituteFn\<close> in document order;
  a returned fragment takes the child's place and is not entered (the traversal goes on
  with the next sibling); on \<^verbatim>\<open>undefined\<close> (\<open>None\<close>) the traversal descends into the child.
  A rejected promise ends the traversal.
\<close>

fun replaceNodesMatchingAsync ::
      "(ParseTree \<Rightarrow> ('w, ParseTree option) io) \<Rightarrow> ParseTree \<Rightarrow> ('w, ParseTree) io"
  and replaceChildren ::
      "(ParseTree \<Rightarrow> ('w, ParseTree option) io) \<Rightarrow> ParseTree list \<Rightarrow> ('w, ParseTree list) io"
where
  "replaceNodesMatchingAsync substituteFn (ParseTree ty tx None) w =
     (Inr (ParseTree ty tx None), w)"
| "replaceNodesMatchingAsync substituteFn (ParseTree ty tx (Some cs)) w =
     (case replaceChildren substituteFn cs w of
        (Inl e, w') \<Rightarrow> (Inl e, w')
      | (Inr cs', w') \<Rightarrow> (Inr (ParseTree ty tx (Some cs')), w'))"
| "replaceChildren substituteFn [] w = (Inr [], w)"
| "replaceChildren substituteFn (child # cs) w =
     (case substituteFn child w of
        (Inl e, w1) \<Rightarrow> (Inl e, w1)
      | (Inr (Some subst), w1) \<Rightarrow>
          (case replaceChildren substituteFn cs w1 of
             (Inl e, w2) \<Rightarrow> (Inl e, w2)
           | (Inr cs', w2) \<Rightarrow> (Inr (subst # cs'), w2))
      | (Inr None, w1) \<Rightarrow>
          (case replaceNodesMatchingAsync substituteFn child w1 of
             (Inl e, w2) \<Rightarrow> (Inl e, w2)
           | (Inr child', w2) \<Rightarrow>
               (case replaceChildren substituteFn cs w2 of
                  (Inl e, w3) \<Rightarrow> (Inl e, w3)
                | (Inr cs', w3) \<Rightarrow> (Inr (child' # cs'), w3))))"

section \<open>The collaborators of the standard library\<close>

text \<open>
  The expression parser, the evaluator, the value converters and the document parser are
  imported by \<^verbatim>\<open>space_lua.ts\<close>; they are parameters of the model.  The parsers are
  synchronous and may throw; the evaluator and the two converters are awaited, may run
  script code and hence may change the world as well as throw.
\<close>

record ('ast, 'js, 'w) collaborators =
  parseExpressionString :: "string \<Rightarrow> error + 'ast"
  evalExpression :: "'ast \<Rightarrow> LuaEnv \<Rightarrow> LuaStackFrame \<Rightarrow> ('w, LuaValue) io"
  singleResult :: "LuaValue \<Rightarrow> LuaValue"
  luaValueToJS :: "LuaValue \<Rightarrow> LuaStackFrame \<Rightarrow> ('w, 'js) io"
  luaToString :: "'js \<Rightarrow> ('w, string) io"
  parseMarkdown :: "string \<Rightarrow> error + ParseTree"

section \<open>space\_lua.ts\<close>

definition createAugmentedEnv ::
  "LuaStackFrame \<Rightarrow> (string \<times> LuaValue) list option \<Rightarrow> error + LuaEnv" where
  "createAugmentedEnv sf envAugmentation =
     (case map_of (threadLocal sf) ''_GLOBAL'' of
        None \<Rightarrow> Inl (Error ''_GLOBAL not defined'')
      | Some globalEnv \<Rightarrow>
          (let env = LuaEnv [] (Some globalEnv) in
           case envAugmentation of
             None \<Rightarrow> Inr env
           | Some aug \<Rightarrow>
               Inr (fold (\<lambda>key env'. setLocal env' key (rawGet aug key)) (keys aug)
                      (setLocal env ''_'' (LuaTable aug)))))"

text \<open>The body of the \<^verbatim>\<open>try\<close> block of \<^verbatim>\<open>evaluateExpression\<close>, statement by statement.\<close>

definition evaluateExpression_try ::
  "('ast, 'js, 'w) collaborators \<Rightarrow> LuaStackFrame \<Rightarrow> string \<Rightarrow>
   (string \<times> LuaValue) list option \<Rightarrow> ('w, ParseTree) io" where
  "evaluateExpression_try c sf expr envAugmentation w =
     (case parseExpressionString c expr of
        Inl e \<Rightarrow> (Inl e, w)
      | Inr parsedExpr \<Rightarrow>
     (case createAugmentedEnv sf envAugmentation of
        Inl e \<Rightarrow> (Inl e, w)
      | Inr env \<Rightarrow>
     (case evalExpression c parsedExpr env sf w of
        (Inl e, w1) \<Rightarrow> (Inl e, w1)
      | (Inr v, w1) \<Rightarrow>
     (case luaValueToJS c (singleResult c v) sf w1 of
        (Inl e, w2) \<Rightarrow> (Inl e, w2)
      | (Inr luaResult, w2) \<Rightarrow>
     (case luaToString c luaResult w2 of
        (Inl e, w3) \<Rightarrow> (Inl e, w3)
      | (Inr result, w3) \<Rightarrow>
     (case parseMarkdown c result of
        Inl e \<Rightarrow> (Inl e, w3)
      | Inr fragment \<Rightarrow> (Inr fragment, w3)))))))"

text \<open>The \<^verbatim>\<open>catch\<close> clause: whatever was thrown is rethrown as a \<^verbatim>\<open>LuaRuntimeError\<close>.\<close>

definition evaluateExpression ::
  "('ast, 'js, 'w) collaborators \<Rightarrow> LuaStackFrame \<Rightarrow> string \<Rightarrow>
   (string \<times> LuaValue) list option \<Rightarrow> ('w, ParseTree) io" where
  "evaluateExpression c sf expr envAugmentation w =
     (case evaluateExpression_try c sf expr envAugmentation w of
        (Inl e, w') \<Rightarrow>
          (Inl (LuaRuntimeError (''Error evaluating '' @ [CHR 0x22] @ expr @ [CHR 0x22]
                                   @ '': '' @ message e) sf), w')
      | (Inr fragment, w') \<Rightarrow> (Inr fragment, w'))"

text \<open>
  The callback that \<^verbatim>\<open>interpolateLuaString\<close> hands to the traversal.  \<open>[CHR 0x5C, CHR ''$'']\<close>
  is the two-character text \<^verbatim>\<open>\$\<close>.
\<close>

definition substituteFn ::
  "('ast, 'js, 'w) collaborators \<Rightarrow> LuaStackFrame \<Rightarrow> (string \<times> LuaValue) list option \<Rightarrow>
   ParseTree \<Rightarrow> ('w, ParseTree option) io" where
  "substituteFn c sf envAugmentation n w =
     (if type n = Some ''LuaDirective'' then
        (case findNodeOfType n ''LuaExpressionDirective'' of
           Some expressionNode \<Rightarrow>
             (case evaluateExpression c sf (renderToText expressionNode) envAugmentation w of
                (Inl e, w') \<Rightarrow> (Inl e, w')
              | (Inr fragment, w') \<Rightarrow> (Inr (Some fragment), w'))
         | None \<Rightarrow> (Inr None, w))
      else if type n = Some ''Escape'' \<and> renderToText n = [CHR 0x5C, CHR ''$''] then
        (case parseMarkdown c ''$'' of
           Inl e \<Rightarrow> (Inl e, w)
         | Inr fragment \<Rightarrow> (Inr (Some fragment), w))
      else if type n = Some ''WikiLinkPage'' then
        (case parseMarkdown c (renderToText n) of
           Inl e \<Rightarrow> (Inl e, w)
         | Inr parsedWikiLink \<Rightarrow>
             (case findNodeOfType parsedWikiLink ''LuaExpressionDirective'' of
                Some expressionNode \<Rightarrow>
                  (case evaluateExpression c sf (renderToText expressionNode) envAugmentation w of
                     (Inl e, w') \<Rightarrow> (Inl e, w')
                   | (Inr fragment, w') \<Rightarrow> (Inr (Some fragment), w'))
              | None \<Rightarrow> (Inr None, w)))
      else (Inr None, w))"

definition interpolateLuaString ::
  "('ast, 'js, 'w) collaborators \<Rightarrow> LuaStackFrame \<Rightarrow> string \<Rightarrow>
   (string \<times> LuaValue) list option \<Rightarrow> ('w, string) io" where
  "interpolateLuaString c sf template envAugmentation w =
     (case parseMarkdown c template of
        Inl e \<Rightarrow> (Inl e, w)
      | Inr parsed \<Rightarrow>
          (case replaceNodesMatchingAsync (substituteFn c sf envAugmentation) parsed w of
             (Inl e, w') \<Rightarrow> (Inl e, w')
           | (Inr parsed', w') \<Rightarrow> (Inr (renderToText parsed'), w')))"

subsection \<open>The entries of \<^verbatim>\<open>spaceluaApi\<close>\<close>

definition spaceluaApi_parseExpression ::
  "('ast, 'js, 'w) collaborators \<Rightarrow> LuaStackFrame \<Rightarrow> string \<Rightarrow> error + 'ast" where
  "spaceluaApi_parseExpression c sf luaExpression = parseExpressionString c luaExpression"

definition spaceluaApi_evalExpression ::
  "('ast, 'js, 'w) collaborators \<Rightarrow> LuaStackFrame \<Rightarrow> 'ast \<Rightarrow>
   (string \<times> LuaValue) list option \<Rightarrow> ('w, 'js) io" where
  "spaceluaApi_evalExpression c sf parsedExpr envAugmentation w =
     (case createAugmentedEnv sf envAugmentation of
        Inl e \<Rightarrow> (Inl e, w)
      | Inr env \<Rightarrow>
          (case evalExpression c parsedExpr env sf w of
             (Inl e, w1) \<Rightarrow> (Inl e, w1)
           | (Inr v, w1) \<Rightarrow> luaValueToJS c v sf w1))"

definition spaceluaApi_interpolate ::
  "('ast, 'js, 'w) collaborators \<Rightarrow> LuaStackFrame \<Rightarrow> string \<Rightarrow>
   (string \<times> LuaValue) list option \<Rightarrow> ('w, string) io" where
  "spaceluaApi_interpolate c sf template envAugmentation =
     interpolateLuaString c sf template envAugmentation"

text \<open>
  \<^verbatim>\<open>baseUrl\<close> reads the ambient \<^verbatim>\<open>location\<close> object, which exists (\<open>Some\<close>) in a browser and is
  undefined (\<open>None\<close>) on the server; \<^verbatim>\<open>null\<close> is the result \<open>None\<close>.
\<close>

record Location =
  protocol :: string
  host :: string

definition spaceluaApi_baseUrl :: "Location option \<Rightarrow> ('w, string option) io" where
  "spaceluaApi_baseUrl location w =
     (case location of
        None \<Rightarrow> (Inr None, w)
      | Some loc \<Rightarrow> (Inr (Some (protocol loc @ ''//'' @ host loc)), w))"

section \<open>attribute.ts\<close>

text \<open>
  Modelled from the spec: \<^verbatim>\<open>traverseTreeAsync(tree, matchFn)\<close> of \<^verbatim>\<open>tree.ts\<close>, the single-pass
  pre-order walk in which the callback's answer \<^verbatim>\<open>true\<close> means that the node's children are not
  entered and \<^verbatim>\<open>false\<close> means go on.  The state \<open>'w\<close> is whatever the callback mutates.
\<close>

fun traverseTreeAsync ::
      "(ParseTree \<Rightarrow> ('w, bool) io) \<Rightarrow> ParseTree \<Rightarrow> ('w, unit) io"
  and traverseChildren ::
      "(ParseTree \<Rightarrow> ('w, bool) io) \<Rightarrow> ParseTree list \<Rightarrow> ('w, unit) io"
where
  "traverseTreeAsync matchFn (ParseTree ty tx None) w =
     (case matchFn (ParseTree ty tx None) w of
        (Inl e, w') \<Rightarrow> (Inl e, w')
      | (Inr stop, w') \<Rightarrow> (Inr (), w'))"
| "traverseTreeAsync matchFn (ParseTree ty tx (Some cs)) w =
     (case matchFn (ParseTree ty tx (Some cs)) w of
        (Inl e, w') \<Rightarrow> (Inl e, w')
      | (Inr stop, w') \<Rightarrow> (if stop then (Inr (), w') else traverseChildren matchFn cs w'))"
| "traverseChildren matchFn [] w = (Inr (), w)"
| "traverseChildren matchFn (child # cs) w =
     (case traverseTreeAsync matchFn child w of
        (Inl e, w') \<Rightarrow> (Inl e, w')
      | (Inr u, w') \<Rightarrow> traverseChildren matchFn cs w')"

text \<open>
  \<^verbatim>\<open>attributes\<close> is a plain object (\<^verbatim>\<open>{}\<close>): it has own properties and a prototype, at first
  \<^verbatim>\<open>Object.prototype\<close>, from which it inherits the accessor \<^verbatim>\<open>__proto__\<close>.  An assignment
  \<^verbatim>\<open>attributes[name] = v\<close> with the name \<^verbatim>\<open>__proto__\<close> therefore runs that setter as long as it
  is inherited: the setter makes an object or \<^verbatim>\<open>null\<close> the new prototype and ignores a
  primitive, and no own property is created.  What the assignment needs to know of a value
  is given by a parameter \<open>kindOf\<close>: a primitive, \<^verbatim>\<open>null\<close>, or an object, with for an object
  whether a data property named \<^verbatim>\<open>__proto__\<close> is found on it before \<^verbatim>\<open>Object.prototype\<close> (which
  hides the accessor).
\<close>

datatype jsKind = PrimitiveValue | NullValue | ObjectValue bool

datatype 'v prototype = ObjectPrototype | NullPrototype | ValuePrototype 'v

text \<open>
  The state of one \<^verbatim>\<open>extractAttributes\<close> call: the own properties and the prototype of the
  \<^verbatim>\<open>attributes\<close> object being filled, and what has been written with \<^verbatim>\<open>console.error\<close> (the
  value text and the error caught).
\<close>

record 'v extraction =
  attributes :: "string \<rightharpoonup> 'v"
  prototype :: "'v prototype"
  console :: "(string option \<times> error) list"

text \<open>
  \<^verbatim>\<open>node.children![0].text!\<close>: the non-null assertions are erased at run time, so a node
  without children, or with an empty list of children, raises a \<^verbatim>\<open>TypeError\<close>, and a first
  child without text gives \<^verbatim>\<open>undefined\<close>.
\<close>

definition firstChildText :: "ParseTree \<Rightarrow> error + string option" where
  "firstChildText node =
     (case children node of
        None \<Rightarrow> Inl (TypeError
                 (''Cannot read properties of undefined (reading '' @ [CHR 0x27] @ ''0'' @ [CHR 0x27] @ '')''))
      | Some [] \<Rightarrow> Inl (TypeError
                 (''Cannot read properties of undefined (reading '' @ [CHR 0x27] @ ''text'' @ [CHR 0x27] @ '')''))
      | Some (child # _) \<Rightarrow> Inr (text' child))"

text \<open>A property key: \<^verbatim>\<open>attributes[undefined]\<close> is the property named \<^verbatim>\<open>"undefined"\<close>.\<close>

definition propertyKey :: "string option \<Rightarrow> string" where
  "propertyKey name = (case name of None \<Rightarrow> ''undefined'' | Some s \<Rightarrow> s)"

text \<open>
  Whether an assignment to \<^verbatim>\<open>__proto__\<close> reaches the inherited setter: the object has no own
  property of that name, and its prototype chain leads to \<^verbatim>\<open>Object.prototype\<close> without a data
  property of that name on the way.
\<close>

definition protoSetterInherited :: "('v \<Rightarrow> jsKind) \<Rightarrow> 'v extraction \<Rightarrow> bool" where
  "protoSetterInherited kindOf st =
     (attributes st ''__proto__'' = None \<and>
      (case prototype st of
         ObjectPrototype \<Rightarrow> True
       | NullPrototype \<Rightarrow> False
       | ValuePrototype p \<Rightarrow> kindOf p = ObjectValue False))"

text \<open>The assignment \<^verbatim>\<open>attributes[key] = v\<close>.\<close>

definition assignProperty :: "('v \<Rightarrow> jsKind) \<Rightarrow> string \<Rightarrow> 'v \<Rightarrow> 'v extraction \<Rightarrow> 'v extraction" where
  "assignProperty kindOf key v st =
     (if key = ''__proto__'' \<and> protoSetterInherited kindOf st then
        (case kindOf v of
           ObjectValue hidesSetter \<Rightarrow> st\<lparr>prototype := ValuePrototype v\<rparr>
         | NullValue \<Rightarrow> st\<lparr>prototype := NullPrototype\<rparr>
         | PrimitiveValue \<Rightarrow> st)
      else st\<lparr>attributes := (attributes st)(key \<mapsto> v)\<rparr>)"

text \<open>
  The \<^verbatim>\<open>try\<close>/\<^verbatim>\<open>catch\<close> statement.  \<open>yamlParse\<close> is the \<^verbatim>\<open>YAML.parse\<close> syscall and \<open>cleanupJSON\<close> the
  imported helper, both parameters; either may throw inside the \<^verbatim>\<open>try\<close>.
\<close>

definition storeAttribute ::
  "(string option \<Rightarrow> error + 'y) \<Rightarrow> ('y \<Rightarrow> error + 'v) \<Rightarrow> ('v \<Rightarrow> jsKind) \<Rightarrow>
   string option \<Rightarrow> string option \<Rightarrow> 'v extraction \<Rightarrow> 'v extraction" where
  "storeAttribute yamlParse cleanupJSON kindOf name val st =
     (case yamlParse val of
        Inl e \<Rightarrow> st\<lparr>console := console st @ [(val, e)]\<rparr>
      | Inr y \<Rightarrow>
          (case cleanupJSON y of
             Inl e \<Rightarrow> st\<lparr>console := console st @ [(val, e)]\<rparr>
           | Inr v \<Rightarrow> assignProperty kindOf (propertyKey name) v st))"

text \<open>
  The callback of \<^verbatim>\<open>extractAttributes\<close>.  \<^verbatim>\<open>tree !== n\<close> compares references; a node met inside
  \<open>tree\<close> other than its root is a proper subterm of it, so the comparison of values agrees.
\<close>

definition extractAttributes_matchFn ::
  "(string option \<Rightarrow> error + 'y) \<Rightarrow> ('y \<Rightarrow> error + 'v) \<Rightarrow> ('v \<Rightarrow> jsKind) \<Rightarrow> ParseTree \<Rightarrow>
   ParseTree \<Rightarrow> ('v extraction, bool) io" where
  "extractAttributes_matchFn yamlParse cleanupJSON kindOf tree n st =
     (if tree \<noteq> n \<and> type n = Some ''ListItem'' then (Inr True, st)
      else if type n = Some ''Attribute'' then
        (case findNodeOfType n ''AttributeName'' of
           None \<Rightarrow> (Inr True, st)
         | Some nameNode \<Rightarrow>
        (case findNodeOfType n ''AttributeValue'' of
           None \<Rightarrow> (Inr True, st)
         | Some valueNode \<Rightarrow>
        (case firstChildText nameNode of
           Inl e \<Rightarrow> (Inl e, st)
         | Inr name \<Rightarrow>
        (case firstChildText valueNode of
           Inl e \<Rightarrow> (Inl e, st)
         | Inr val \<Rightarrow> (Inr True, storeAttribute yamlParse cleanupJSON kindOf name val st)))))
      else (Inr False, st))"

text \<open>
  The result is the attributes object (its own properties and its prototype), or the
  rejection, and the console output.
\<close>

definition extractAttributes ::
  "(string option \<Rightarrow> error + 'y) \<Rightarrow> ('y \<Rightarrow> error + 'v) \<Rightarrow> ('v \<Rightarrow> jsKind) \<Rightarrow> ParseTree \<Rightarrow>
   (error + (string \<rightharpoonup> 'v) \<times> 'v prototype) \<times> (string option \<times> error) list" where
  "extractAttributes yamlParse cleanupJSON kindOf tree =
     (case traverseTreeAsync (extractAttributes_matchFn yamlParse cleanupJSON kindOf tree) tree
             \<lparr>attributes = Map.empty, prototype = ObjectPrototype, console = []\<rparr> of
        (Inl e, st) \<Rightarrow> (Inl e, console st)
      | (Inr u, st) \<Rightarrow> (Inr (attributes st, prototype st), console st))"

section \<open>Notions used to state the properties\<close>

text \<open>The message that the \<^verbatim>\<open>catch\<close> clause of \<^verbatim>\<open>evaluateExpression\<close> builds from a cause.\<close>

abbreviation errorEvaluating :: "string \<Rightarrow> error \<Rightarrow> string" where
  "errorEvaluating expr cause \<equiv>
     ''Error evaluating '' @ [CHR 0x22] @ expr @ [CHR 0x22] @ '': '' @ message cause"

text \<open>All nodes of a tree in document order, and those below the root.\<close>

fun nodes :: "ParseTree \<Rightarrow> ParseTree list" where
  "nodes (ParseTree ty tx None) = [ParseTree ty tx None]"
| "nodes (ParseTree ty tx (Some cs)) = ParseTree ty tx (Some cs) # concat (map nodes cs)"

definition descendants :: "ParseTree \<Rightarrow> ParseTree list" where
  "descendants t = (case children t of None \<Rightarrow> [] | Some cs \<Rightarrow> concat (map nodes cs))"

text \<open>
  A callback that also records each of its invocations (the node, the world in which it is
  called, and what it returns) in a trace kept beside the world.  Running a traversal with
  \<open>traced f\<close> shows where and when \<open>f\<close> is called.
\<close>

definition traced ::
  "(ParseTree \<Rightarrow> ('w, 'a) io) \<Rightarrow> ParseTree \<Rightarrow>
   ('w \<times> (ParseTree \<times> 'w \<times> (error + 'a) \<times> 'w) list, 'a) io" where
  "traced f n = (\<lambda>(w, tr). case f n w of (r, w') \<Rightarrow> (r, (w', tr @ [(n, w, r, w')])))"


text \<open>
  The expression node of a directive: the node whose text the callback of
  \<^verbatim>\<open>interpolateLuaString\<close> hands to \<^verbatim>\<open>evaluateExpression\<close> at a node, which is the
  \<^verbatim>\<open>LuaExpressionDirective\<close> found in a \<^verbatim>\<open>LuaDirective\<close>, or the one found in the parse of the
  text of a \<^verbatim>\<open>WikiLinkPage\<close>.  A node is matched when the callback substitutes it: a directive
  with an expression node, or the escape of the marker.
\<close>

definition directiveExpressionNode ::
  "('ast, 'js, 'w) collaborators \<Rightarrow> ParseTree \<Rightarrow> ParseTree option" where
  "directiveExpressionNode c n =
     (if type n = Some ''LuaDirective'' then findNodeOfType n ''LuaExpressionDirective''
      else if type n = Some ''WikiLinkPage'' then
        (case parseMarkdown c (renderToText n) of
           Inl e \<Rightarrow> None
         | Inr parsedWikiLink \<Rightarrow> findNodeOfType parsedWikiLink ''LuaExpressionDirective'')
      else None)"

definition matched :: "('ast, 'js, 'w) collaborators \<Rightarrow> ParseTree \<Rightarrow> bool" where
  "matched c n \<longleftrightarrow>
     directiveExpressionNode c n \<noteq> None \<or>
     (type n = Some ''Escape'' \<and> renderToText n = [CHR 0x5C, CHR ''$''])"

text \<open>
  The node at a position of a tree; a position is the list of child indices on the way down
  from the root.  The traversal replaces a child by one node, so positions are the same in
  the tree before and after it.
\<close>

fun subtreeAt :: "nat list \<Rightarrow> ParseTree \<Rightarrow> ParseTree option" where
  "subtreeAt [] t = Some t"
| "subtreeAt (i # p) t =
     (case children t of
        None \<Rightarrow> None
      | Some cs \<Rightarrow> if i < length cs then subtreeAt p (cs ! i) else None)"

text \<open>
  Collaborators that also keep, beside the world, the log of the expressions handed to the
  evaluator, in the order of the calls.  Running \<^verbatim>\<open>interpolateLuaString\<close> with \<open>logged c\<close> shows
  what is evaluated during the call.
\<close>

definition logged ::
  "('ast, 'js, 'w) collaborators \<Rightarrow> ('ast, 'js, 'w \<times> 'ast list) collaborators" where
  "logged c =
     \<lparr> parseExpressionString = parseExpressionString c,
       evalExpression = (\<lambda>ast env sf (w, lg).
          case evalExpression c ast env sf w of (r, w') \<Rightarrow> (r, (w', lg @ [ast]))),
       singleResult = singleResult c,
       luaValueToJS = (\<lambda>v sf (w, lg). case luaValueToJS c v sf w of (r, w') \<Rightarrow> (r, (w', lg))),
       luaToString = (\<lambda>j (w, lg). case luaToString c j w of (r, w') \<Rightarrow> (r, (w', lg))),
       parseMarkdown = parseMarkdown c \<rparr>"

text \<open>
  The parsed expressions of the directives of a tree: for every node below the root that has
  an expression node whose text parses, that expression, in document order.
\<close>

definition directiveExpression :: "('ast, 'js, 'w) collaborators \<Rightarrow> ParseTree \<Rightarrow> 'ast list" where
  "directiveExpression c n =
     (case directiveExpressionNode c n of
        None \<Rightarrow> []
      | Some expressionNode \<Rightarrow>
          (case parseExpressionString c (renderToText expressionNode) of
             Inl e \<Rightarrow> []
           | Inr ast \<Rightarrow> [ast]))"

definition directiveExpressions :: "('ast, 'js, 'w) collaborators \<Rightarrow> ParseTree \<Rightarrow> 'ast list" where
  "directiveExpressions c t = concat (map (directiveExpression c) (descendants t))"

text \<open>
  The attribute occurrences that \<^verbatim>\<open>extractAttributes\<close> is meant to see, read off the tree
  alone: name and value text of every \<^verbatim>\<open>Attribute\<close> node that has both parts and lies outside
  every list item other than the root, in document order, up to the first node whose name
  or value part has no first child (the \<^verbatim>\<open>TypeError\<close> then raised is the second component).
\<close>

fun attributeOccurrences ::
      "ParseTree \<Rightarrow> ParseTree \<Rightarrow> (string option \<times> string option) list \<times> error option"
  and attributeOccurrencesIn ::
      "ParseTree \<Rightarrow> ParseTree list \<Rightarrow> (string option \<times> string option) list \<times> error option"
where
  "attributeOccurrences tree (ParseTree ty tx cso) =
     (if tree \<noteq> ParseTree ty tx cso \<and> ty = Some ''ListItem'' then ([], None)
      else if ty = Some ''Attribute'' then
        (case (findNodeOfType (ParseTree ty tx cso) ''AttributeName'',
               findNodeOfType (ParseTree ty tx cso) ''AttributeValue'') of
           (Some nameNode, Some valueNode) \<Rightarrow>
             (case firstChildText nameNode of
                Inl e \<Rightarrow> ([], Some e)
              | Inr name \<Rightarrow>
                  (case firstChildText valueNode of
                     Inl e \<Rightarrow> ([], Some e)
                   | Inr val \<Rightarrow> ([(name, val)], None)))
         | _ \<Rightarrow> ([], None))
      else (case cso of
              None \<Rightarrow> ([], None)
            | Some cs \<Rightarrow> attributeOccurrencesIn tree cs))"
| "attributeOccurrencesIn tree [] = ([], None)"
| "attributeOccurrencesIn tree (child # cs) =
     (case attributeOccurrences tree child of
        (ps, Some e) \<Rightarrow> (ps, Some e)
      | (ps, None) \<Rightarrow>
          (case attributeOccurrencesIn tree cs of (qs, r) \<Rightarrow> (ps @ qs, r)))"

section \<open>Stand-ins for the collaborators\<close>

text \<open>
  Concrete collaborators on which the functions can be run.  The world of the stand-ins
  counts the calls of the evaluator.
\<close>

text \<open>
  Modelled from the spec: the two expression forms of the spec's augmentation example, a name
  (\<^verbatim>\<open>x\<close>) and a field of an expression (\<^verbatim>\<open>_.x\<close>).
\<close>

datatype LuaExpression = Variable string | PropertyAccess LuaExpression string

text \<open>
  Modelled from the spec: the evaluator on these two forms.  A name is looked up in the scope
  with fallback to the parent (an unbound name is nil); a field access reads the key of a
  table.
\<close>

fun evalNameOrField :: "LuaExpression \<Rightarrow> LuaEnv \<Rightarrow> LuaStackFrame \<Rightarrow> error + LuaValue" where
  "evalNameOrField (Variable name) env sf =
     Inr (case get env name of None \<Rightarrow> LuaNil | Some v \<Rightarrow> v)"
| "evalNameOrField (PropertyAccess obj prop) env sf =
     (case evalNameOrField obj env sf of
        Inl e \<Rightarrow> Inl e
      | Inr (LuaTable t) \<Rightarrow> Inr (rawGet t prop)
      | Inr _ \<Rightarrow> Inl (LuaRuntimeError ''attempt to index a non-table value'' sf))"

definition textNode :: "string \<Rightarrow> ParseTree" where
  "textNode s = ParseTree None (Some s) None"

definition typedNode :: "string \<Rightarrow> ParseTree list \<Rightarrow> ParseTree" where
  "typedNode ty cs = ParseTree (Some ty) None (Some cs)"

definition directiveDocument :: "string \<Rightarrow> ParseTree" where
  "directiveDocument expr =
     typedNode ''Document'' [typedNode ''Paragraph''
       [typedNode ''LuaDirective''
          [textNode ''${'', typedNode ''LuaExpressionDirective'' [textNode expr], textNode ''}'']]]"

definition standIn_parseMarkdown :: "string \<Rightarrow> error + ParseTree" where
  "standIn_parseMarkdown s =
     (if s = ''${1+}'' then Inr (directiveDocument ''1+'')
      else if s = ''${s}'' then Inr (directiveDocument ''s'')
      else if s = ''${x}'' then Inr (directiveDocument ''x'')
      else if s = [CHR 0x5C, CHR ''$''] then
        Inr (typedNode ''Document'' [typedNode ''Paragraph''
               [typedNode ''Escape'' [textNode [CHR 0x5C, CHR ''$'']]]])
      else if s = ''[[${s}]]'' then
        Inr (typedNode ''Document'' [typedNode ''Paragraph''
               [typedNode ''WikiLink''
                  [typedNode ''WikiLinkMark'' [textNode ''[[''],
                   typedNode ''WikiLinkPage'' [textNode ''${s}''],
                   typedNode ''WikiLinkMark'' [textNode '']]'']]]])
      else Inr (typedNode ''Document'' [typedNode ''Paragraph'' [textNode s]]))"

definition standIn_parseExpressionString :: "string \<Rightarrow> error + LuaExpression" where
  "standIn_parseExpressionString s =
     (if s = ''x'' then Inr (Variable ''x'')
      else if s = ''s'' then Inr (Variable ''s'')
      else if s = ''_.x'' then Inr (PropertyAccess (Variable ''_'') ''x'')
      else Inl (OtherError ''ParseError'' ''unexpected symbol''))"

definition standIn :: "(LuaExpression, LuaValue, nat) collaborators" where
  "standIn =
     \<lparr> parseExpressionString = standIn_parseExpressionString,
       evalExpression = (\<lambda>ast env sf w. (evalNameOrField ast env sf, Suc w)),
       singleResult = (\<lambda>v. case v of LuaMultiRes [] \<Rightarrow> LuaNil | LuaMultiRes (x # _) \<Rightarrow> x | _ \<Rightarrow> v),
       luaValueToJS = (\<lambda>v sf w. (Inr v, w)),
       luaToString = (\<lambda>v w. case v of
                        LuaString s \<Rightarrow> (Inr s, w)
                      | LuaNil \<Rightarrow> (Inr ''nil'', w)
                      | _ \<Rightarrow> (Inl (OtherError ''Error'' ''no string form''), w)),
       parseMarkdown = standIn_parseMarkdown \<rparr>"

text \<open>A frame without the global handle, and one whose global scope binds \<^verbatim>\<open>s\<close>.\<close>

definition frameWithoutGlobal :: LuaStackFrame where
  "frameWithoutGlobal = \<lparr> threadLocal = [] \<rparr>"

definition frameWithGlobal :: LuaStackFrame where
  "frameWithGlobal = \<lparr> threadLocal = [(''_GLOBAL'', LuaEnv [(''s'', LuaString ''${x}'')] None)] \<rparr>"

text \<open>A YAML parser that rejects the text \<^verbatim>\<open>[\<close> and returns any other text as it is.\<close>

definition standIn_yamlParse :: "string option \<Rightarrow> error + string" where
  "standIn_yamlParse val =
     (case val of
        None \<Rightarrow> Inl (OtherError ''YAMLError'' ''no input'')
      | Some s \<Rightarrow> if s = ''['' then Inl (OtherError ''YAMLError'' ''unexpected end of the stream'')
                  else Inr s)"

definition attributeNode :: "string \<Rightarrow> string \<Rightarrow> ParseTree" where
  "attributeNode name val =
     typedNode ''Attribute''
       [typedNode ''AttributeName'' [textNode name], typedNode ''AttributeValue'' [textNode val]]"

text \<open>
  A document with attributes at the top level and one inside a list item, and a document with
  an attribute named \<^verbatim>\<open>__proto__\<close>.
\<close>

definition exampleAttributeTree :: ParseTree where
  "exampleAttributeTree =
     typedNode ''Document''
       [typedNode ''Paragraph'' [attributeNode ''a'' ''1'', attributeNode ''b'' ''[''],
        typedNode ''BulletList''
          [typedNode ''ListItem'' [typedNode ''Paragraph'' [attributeNode ''c'' ''3'']]],
        typedNode ''Paragraph'' [attributeNode ''d'' ''4'']]"

definition protoAttributeTree :: ParseTree where
  "protoAttributeTree =
     typedNode ''Document''
       [typedNode ''Paragraph'' [attributeNode ''__proto__'' ''1'', attributeNode ''b'' ''2'']]"

section \<open>Auxiliary facts\<close>

subsection \<open>Induction over a tree and its lists of children\<close>

lemma tree_forest_induct [case_names Leaf Node Nil Cons]:
  assumes "\<And>ty tx. P (ParseTree ty tx None)"
    and "\<And>ty tx cs. Q cs \<Longrightarrow> P (ParseTree ty tx (Some cs))"
    and "Q []"
    and "\<And>c cs. P c \<Longrightarrow> Q cs \<Longrightarrow> Q (c # cs)"
  shows "P t" and "Q cs"
proof -
  have P: "P t" for t
  proof (induction t)
    case (ParseTree ty tx cso)
    show ?case
    proof (cases cso)
      case None
      then show ?thesis by (simp add: assms(1))
    next
      case (Some cs)
      have "Q cs" using ParseTree[unfolded Some]
        by (induction cs) (auto intro: assms(3,4))
      then show ?thesis unfolding Some by (rule assms(2))
    qed
  qed
  show "P t" by (rule P)
  show "Q cs" by (induction cs) (auto intro: assms(3,4) P)
qed

lemma descendants_simps [simp]:
  "descendants (ParseTree ty tx None) = []"
  "descendants (ParseTree ty tx (Some cs)) = concat (map nodes cs)"
  by (simp_all add: descendants_def)

lemma nodes_eq: "nodes t = t # descendants t"
  by (cases t rule: nodes.cases) simp_all

subsection \<open>The replace traversal\<close>




lemma replace_unchanged:
  "(\<And>n w. n \<in> set (descendants t) \<Longrightarrow> f n w = (Inr None, w)) \<Longrightarrow>
     replaceNodesMatchingAsync f t w = (Inr t, w)"
  "(\<And>n w. n \<in> set (concat (map nodes cs)) \<Longrightarrow> f n w = (Inr None, w)) \<Longrightarrow>
     replaceChildren f cs w = (Inr cs, w)"
proof (induction t and cs arbitrary: w and w rule: tree_forest_induct)
  case (Cons c cs)
  have c: "f c w = (Inr None, w)" using Cons.prems by (simp add: nodes_eq[of c])
  have 1: "replaceNodesMatchingAsync f c w = (Inr c, w)"
    by (rule Cons.IH(1)) (simp add: Cons.prems nodes_eq[of c])
  have 2: "replaceChildren f cs w = (Inr cs, w)"
    by (rule Cons.IH(2)) (simp add: Cons.prems)
  show ?case by (simp add: c 1 2)
qed simp_all


lemma replaceChildren_nth:
  "replaceChildren f cs w = (Inr cs', w') \<Longrightarrow> i < length cs \<Longrightarrow>
     length cs' = length cs \<and>
     (\<exists>w0 w1 r. f (cs ! i) w0 = (Inr r, w1) \<and>
        (case r of
           Some fragment \<Rightarrow> cs' ! i = fragment
         | None \<Rightarrow> (\<exists>w2. replaceNodesMatchingAsync f (cs ! i) w1 = (Inr (cs' ! i), w2))))"
proof (induction cs arbitrary: i w cs')
  case Nil
  then show ?case by simp
next
  case (Cons c cs)
  obtain r w1 where f: "f c w = (Inr r, w1)"
    using Cons.prems(1) by (auto split: prod.splits sum.splits)
  show ?case
  proof (cases r)
    case (Some fragment)
    with f Cons.prems(1) obtain cs'' where
      rest: "replaceChildren f cs w1 = (Inr cs'', w')" and cs': "cs' = fragment # cs''"
      by (auto split: prod.splits sum.splits)
    show ?thesis
    proof (cases i)
      case 0
      have "length cs'' = length cs"
      proof (cases cs)
        case Nil
        with rest show ?thesis by simp
      next
        case (Cons a as)
        with Cons.IH[OF rest, of 0] show ?thesis by simp
      qed
      with 0 f Some cs' show ?thesis by force
    next
      case (Suc j)
      with Cons.prems(2) have "j < length cs" by simp
      from Cons.IH[OF rest this] show ?thesis unfolding Suc cs'
        by (simp cong: option.case_cong)
    qed
  next
    case None
    with f Cons.prems(1) obtain c' w2 cs'' where
      sub: "replaceNodesMatchingAsync f c w1 = (Inr c', w2)"
      and rest: "replaceChildren f cs w2 = (Inr cs'', w')" and cs': "cs' = c' # cs''"
      by (auto split: prod.splits sum.splits)
    show ?thesis
    proof (cases i)
      case 0
      have "length cs'' = length cs"
      proof (cases cs)
        case Nil
        with rest show ?thesis by simp
      next
        case (Cons a as)
        with Cons.IH[OF rest, of 0] show ?thesis by simp
      qed
      with 0 f None cs' sub show ?thesis by force
    next
      case (Suc j)
      with Cons.prems(2) have "j < length cs" by simp
      from Cons.IH[OF rest this] show ?thesis unfolding Suc cs'
        by (simp cong: option.case_cong)
    qed
  qed
qed

lemma replace_at_path:
  assumes "subtreeAt p t = Some n" and "p \<noteq> []"
    and "\<And>q m w fragment w'. q \<noteq> [] \<Longrightarrow> strict_prefix q p \<Longrightarrow> subtreeAt q t = Some m \<Longrightarrow>
           f m w \<noteq> (Inr (Some fragment), w')"
    and "replaceNodesMatchingAsync f t w = (Inr t', w')"
  shows "\<exists>w0 w1 r. f n w0 = (Inr r, w1) \<and>
           (case r of
              Some fragment \<Rightarrow> subtreeAt p t' = Some fragment
            | None \<Rightarrow> (\<exists>n' w2. replaceNodesMatchingAsync f n w1 = (Inr n', w2) \<and>
                          subtreeAt p t' = Some n'))"
  using assms
proof (induction p arbitrary: t w t' w')
  case Nil
  then show ?case by simp
next
  case (Cons i p)
  note prems = Cons.prems and IH = Cons.IH
  from prems(1) obtain ty tx cs where t: "t = ParseTree ty tx (Some cs)"
    and i: "i < length cs" and sub: "subtreeAt p (cs ! i) = Some n"
    by (cases t) (auto split: option.splits if_splits)
  from prems(4) t obtain cs' where
    run: "replaceChildren f cs w = (Inr cs', w')" and t': "t' = ParseTree ty tx (Some cs')"
    by (auto split: prod.splits sum.splits)
  from replaceChildren_nth[OF run i] obtain w0 w1 r where
    len: "length cs' = length cs" and f: "f (cs ! i) w0 = (Inr r, w1)"
    and r: "case r of
              Some fragment \<Rightarrow> cs' ! i = fragment
            | None \<Rightarrow> (\<exists>w2. replaceNodesMatchingAsync f (cs ! i) w1 = (Inr (cs' ! i), w2))"
    by blast
  show ?case
  proof (cases "p = []")
    case True
    with sub have n: "n = cs ! i" by simp
    show ?thesis
      using f r i len unfolding True n t'
      by (intro exI[of _ w0] exI[of _ w1] exI[of _ r]) (auto split: option.splits)
  next
    case False
    have top: "subtreeAt [i] t = Some (cs ! i)" using t i by simp
    have "strict_prefix [i] (i # p)" using False by (simp add: strict_prefix_def)
    from prems(3)[OF _ this top] f have "r = None"
      by (cases r) auto
    with r obtain w2 where down: "replaceNodesMatchingAsync f (cs ! i) w1 = (Inr (cs' ! i), w2)"
      by auto
    have "\<exists>v0 v1 r'. f n v0 = (Inr r', v1) \<and>
           (case r' of
              Some fragment \<Rightarrow> subtreeAt p (cs' ! i) = Some fragment
            | None \<Rightarrow> (\<exists>n' w2. replaceNodesMatchingAsync f n v1 = (Inr n', w2) \<and>
                          subtreeAt p (cs' ! i) = Some n'))"
    proof (rule IH[OF sub False _ down])
      fix q m v fragment v'
      assume q: "q \<noteq> []" "strict_prefix q p" "subtreeAt q (cs ! i) = Some m"
      have "strict_prefix (i # q) (i # p)" using q(2) by (simp add: strict_prefix_def)
      moreover have "subtreeAt (i # q) t = Some m" using q(3) t i by simp
      ultimately show "f m v \<noteq> (Inr (Some fragment), v')"
        using prems(3)[of "i # q"] by blast
    qed
    then obtain v0 v1 r' where
      "f n v0 = (Inr r', v1)"
      "case r' of
         Some fragment \<Rightarrow> subtreeAt p (cs' ! i) = Some fragment
       | None \<Rightarrow> (\<exists>n' w2. replaceNodesMatchingAsync f n v1 = (Inr n', w2) \<and>
                     subtreeAt p (cs' ! i) = Some n')"
      by blast
    then show ?thesis
      using i len unfolding t'
      by (intro exI[of _ v0] exI[of _ v1] exI[of _ r']) (auto split: option.splits)
  qed
qed

lemma logged_traversal:
  assumes "\<And>n w lg. \<exists>l. g n (w, lg) = (fst (f n w), snd (f n w), lg @ l) \<and> subseq l (ev n)"
  shows "\<exists>l. replaceNodesMatchingAsync g t (w, lg) =
            (fst (replaceNodesMatchingAsync f t w), snd (replaceNodesMatchingAsync f t w), lg @ l) \<and>
            subseq l (concat (map ev (descendants t)))"
    and "\<exists>l. replaceChildren g cs (w, lg) =
            (fst (replaceChildren f cs w), snd (replaceChildren f cs w), lg @ l) \<and>
            subseq l (concat (map ev (concat (map nodes cs))))"
proof (induction t and cs arbitrary: w lg and w lg rule: tree_forest_induct)
  case (Leaf ty tx)
  show ?case by simp
next
  case (Node ty tx cs)
  from Node.IH[of w lg] obtain l where
    "replaceChildren g cs (w, lg) =
       (fst (replaceChildren f cs w), snd (replaceChildren f cs w), lg @ l)"
    "subseq l (concat (map ev (concat (map nodes cs))))" by blast
  then show ?case
    by (intro exI[of _ l]) (auto split: prod.splits sum.splits)
next
  case Nil
  show ?case by simp
next
  case (Cons c cs)
  obtain r w1 where f: "f c w = (r, w1)" by (cases "f c w")
  from assms[of c w lg] f obtain l0 where
    g: "g c (w, lg) = (r, w1, lg @ l0)" and l0: "subseq l0 (ev c)" by auto
  show ?case
  proof (cases r)
    case (Inl e)
    have "subseq (l0 @ []) (ev c @ concat (map ev (descendants c)) @ concat (map ev (concat (map nodes cs))))"
      using l0 by (intro list_emb_append_mono) simp_all
    with f g Inl show ?thesis
      by (intro exI[of _ l0]) (simp add: nodes_eq[of c])
  next
    case (Inr b)
    show ?thesis
    proof (cases b)
      case (Some s)
      from Cons.IH(2)[of w1 "lg @ l0"] obtain l2 where
        rest: "replaceChildren g cs (w1, lg @ l0) =
           (fst (replaceChildren f cs w1), snd (replaceChildren f cs w1), (lg @ l0) @ l2)"
        and l2: "subseq l2 (concat (map ev (concat (map nodes cs))))" by blast
      have "subseq l2 (concat (map ev (descendants c)) @ concat (map ev (concat (map nodes cs))))"
        using l2 by (rule list_emb_append2)
      with l0 have "subseq (l0 @ l2)
          (ev c @ concat (map ev (descendants c)) @ concat (map ev (concat (map nodes cs))))"
        by (rule list_emb_append_mono)
      with f g Inr Some rest show ?thesis
        by (intro exI[of _ "l0 @ l2"]) (auto simp: nodes_eq[of c] split: prod.splits sum.splits)
    next
      case None
      from Cons.IH(1)[of w1 "lg @ l0"] obtain l1 where
        down: "replaceNodesMatchingAsync g c (w1, lg @ l0) =
           (fst (replaceNodesMatchingAsync f c w1), snd (replaceNodesMatchingAsync f c w1),
            (lg @ l0) @ l1)"
        and l1: "subseq l1 (concat (map ev (descendants c)))" by blast
      obtain r2 w2 where r2: "replaceNodesMatchingAsync f c w1 = (r2, w2)"
        by (cases "replaceNodesMatchingAsync f c w1")
      show ?thesis
      proof (cases r2)
        case (Inl e)
        have "subseq (l0 @ l1 @ [])
          (ev c @ concat (map ev (descendants c)) @ concat (map ev (concat (map nodes cs))))"
          using l0 l1 by (intro list_emb_append_mono) simp_all
        with f g Inr None down r2 Inl show ?thesis
          by (intro exI[of _ "l0 @ l1"]) (simp add: nodes_eq[of c])
      next
        case (Inr c')
        from Cons.IH(2)[of w2 "(lg @ l0) @ l1"] obtain l2 where
          rest: "replaceChildren g cs (w2, (lg @ l0) @ l1) =
             (fst (replaceChildren f cs w2), snd (replaceChildren f cs w2), ((lg @ l0) @ l1) @ l2)"
          and l2: "subseq l2 (concat (map ev (concat (map nodes cs))))" by blast
        have "subseq (l0 @ l1 @ l2)
          (ev c @ concat (map ev (descendants c)) @ concat (map ev (concat (map nodes cs))))"
          using l0 l1 l2 by (intro list_emb_append_mono)
        with f g \<open>r = Inr b\<close> None down r2 Inr rest show ?thesis
          by (intro exI[of _ "l0 @ l1 @ l2"])
             (auto simp: nodes_eq[of c] split: prod.splits sum.splits)
      qed
    qed
  qed
qed

subsection \<open>The callback and the scope\<close>

lemma substituteFn_other:
  "type n \<noteq> Some ''LuaDirective'' \<Longrightarrow> type n \<noteq> Some ''Escape'' \<Longrightarrow>
   type n \<noteq> Some ''WikiLinkPage'' \<Longrightarrow> substituteFn c sf aug n w = (Inr None, w)"
  by (simp add: substituteFn_def)



lemma substituteFn_directive:
  "directiveExpressionNode c n = Some expressionNode \<Longrightarrow>
     substituteFn c sf aug n w =
       (case evaluateExpression c sf (renderToText expressionNode) aug w of
          (Inl e, w') \<Rightarrow> (Inl e, w')
        | (Inr fragment, w') \<Rightarrow> (Inr (Some fragment), w'))"
  by (auto simp: directiveExpressionNode_def substituteFn_def split: if_splits sum.splits)

lemma substituteFn_unmatched:
  "\<not> matched c n \<Longrightarrow> substituteFn c sf aug n w \<noteq> (Inr (Some fragment), w')"
  by (auto simp: matched_def directiveExpressionNode_def substituteFn_def
        split: if_splits sum.splits option.splits)

lemma evaluateExpression_Inr:
  "evaluateExpression c sf expr aug w = (Inr fragment, w') \<longleftrightarrow>
      (\<exists>ast env v j s w1 w2.
         parseExpressionString c expr = Inr ast \<and>
         createAugmentedEnv sf aug = Inr env \<and>
         evalExpression c ast env sf w = (Inr v, w1) \<and>
         luaValueToJS c (singleResult c v) sf w1 = (Inr j, w2) \<and>
         luaToString c j w2 = (Inr s, w') \<and>
         parseMarkdown c s = Inr fragment)"
  unfolding evaluateExpression_def evaluateExpression_try_def
  by (auto split: sum.splits prod.splits)

lemma logged_sel [simp]:
  "parseExpressionString (logged c) = parseExpressionString c"
  "singleResult (logged c) = singleResult c"
  "parseMarkdown (logged c) = parseMarkdown c"
  "evalExpression (logged c) ast env sf (w, lg) =
     (case evalExpression c ast env sf w of (r, w') \<Rightarrow> (r, (w', lg @ [ast])))"
  "luaValueToJS (logged c) v sf (w, lg) =
     (case luaValueToJS c v sf w of (r, w') \<Rightarrow> (r, (w', lg)))"
  "luaToString (logged c) j (w, lg) = (case luaToString c j w of (r, w') \<Rightarrow> (r, (w', lg)))"
  by (simp_all add: logged_def)

lemma directiveExpressionNode_logged [simp]:
  "directiveExpressionNode (logged c) n = directiveExpressionNode c n"
  by (simp add: directiveExpressionNode_def)

lemma evaluateExpression_logged:
  "\<exists>l. evaluateExpression (logged c) sf expr aug (w, lg) =
         (fst (evaluateExpression c sf expr aug w), snd (evaluateExpression c sf expr aug w), lg @ l) \<and>
       subseq l (case parseExpressionString c expr of Inl e \<Rightarrow> [] | Inr ast \<Rightarrow> [ast])"
  unfolding evaluateExpression_def evaluateExpression_try_def
  by (auto split: sum.splits prod.splits)

lemma substituteFn_logged:
  "\<exists>l. substituteFn (logged c) sf aug n (w, lg) =
         (fst (substituteFn c sf aug n w), snd (substituteFn c sf aug n w), lg @ l) \<and>
       subseq l (directiveExpression c n)"
proof (cases "directiveExpressionNode c n")
  case None
  then have "substituteFn (logged c) sf aug n (w, lg) =
         (fst (substituteFn c sf aug n w), snd (substituteFn c sf aug n w), lg @ [])"
    by (auto simp: directiveExpressionNode_def substituteFn_def
          split: if_splits sum.splits option.splits)
  then show ?thesis by (intro exI[of _ "[]"]) simp
next
  case (Some x)
  from evaluateExpression_logged[of c sf "renderToText x" aug w lg] obtain l where
    l: "evaluateExpression (logged c) sf (renderToText x) aug (w, lg) =
         (fst (evaluateExpression c sf (renderToText x) aug w),
          snd (evaluateExpression c sf (renderToText x) aug w), lg @ l)"
    "subseq l (case parseExpressionString c (renderToText x) of Inl e \<Rightarrow> [] | Inr ast \<Rightarrow> [ast])"
    by blast
  have "directiveExpressionNode (logged c) n = Some x" using Some by simp
  from substituteFn_directive[OF this, of sf aug "(w, lg)"] substituteFn_directive[OF Some, of sf aug w] l
  show ?thesis
    by (intro exI[of _ l]) (auto simp: directiveExpression_def Some split: prod.splits sum.splits)
qed

lemma fold_setLocal:
  "fold (\<lambda>key env'. setLocal env' key (g key)) ks (LuaEnv vs p) =
     LuaEnv (fold (\<lambda>k. AList.update k (g k)) ks vs) p"
  by (induction ks arbitrary: vs) simp_all

lemma map_of_fold_update:
  "map_of (fold (\<lambda>k. AList.update k (g k)) ks vs) k =
     (if k \<in> set ks then Some (g k) else map_of vs k)"
  by (induction ks arbitrary: vs) (auto simp: update_conv')

subsection \<open>The attribute traversal\<close>

lemma matchFn_cases:
  "extractAttributes_matchFn yp cj k tree n st =
     (if tree \<noteq> n \<and> type n = Some ''ListItem'' then (Inr True, st)
      else if type n = Some ''Attribute'' then
        (case attributeOccurrences tree n of
           (ps, err) \<Rightarrow> ((case err of None \<Rightarrow> Inr True | Some e \<Rightarrow> Inl e),
                          foldl (\<lambda>st (name, val). storeAttribute yp cj k name val st) st ps))
      else (Inr False, st))"
  by (cases n) (auto simp: extractAttributes_matchFn_def split: option.splits sum.splits)

lemma occ_stop:
  "tree \<noteq> n \<and> type n = Some ''ListItem'' \<Longrightarrow> attributeOccurrences tree n = ([], None)"
  by (cases n) simp

lemma occ_descend:
  "\<not> (tree \<noteq> n \<and> type n = Some ''ListItem'') \<Longrightarrow> type n \<noteq> Some ''Attribute'' \<Longrightarrow>
   attributeOccurrences tree n =
     (case children n of None \<Rightarrow> ([], None) | Some cs \<Rightarrow> attributeOccurrencesIn tree cs)"
  by (cases n) auto

lemma traverse_node:
  "traverseTreeAsync f n st =
     (case f n st of
        (Inl e, st') \<Rightarrow> (Inl e, st')
      | (Inr stop, st') \<Rightarrow>
          if stop then (Inr (), st')
          else (case children n of None \<Rightarrow> (Inr (), st') | Some cs \<Rightarrow> traverseChildren f cs st'))"
  by (cases n rule: nodes.cases) (auto split: prod.splits sum.splits)

lemma traverse_factor_node:
  assumes "\<And>cs st. children n = Some cs \<Longrightarrow>
     traverseChildren (extractAttributes_matchFn yp cj k tree) cs st =
     (case attributeOccurrencesIn tree cs of
        (ps, err) \<Rightarrow> ((case err of None \<Rightarrow> Inr () | Some e \<Rightarrow> Inl e),
                       foldl (\<lambda>st (name, val). storeAttribute yp cj k name val st) st ps))"
  shows "traverseTreeAsync (extractAttributes_matchFn yp cj k tree) n st =
     (case attributeOccurrences tree n of
        (ps, err) \<Rightarrow> ((case err of None \<Rightarrow> Inr () | Some e \<Rightarrow> Inl e),
                       foldl (\<lambda>st (name, val). storeAttribute yp cj k name val st) st ps))"
proof -
  consider (stop) "tree \<noteq> n \<and> type n = Some ''ListItem''"
    | (attr) "\<not> (tree \<noteq> n \<and> type n = Some ''ListItem'')" "type n = Some ''Attribute''"
    | (other) "\<not> (tree \<noteq> n \<and> type n = Some ''ListItem'')" "type n \<noteq> Some ''Attribute''"
    by blast
  then show ?thesis
  proof cases
    case stop
    then show ?thesis
      by (simp add: traverse_node matchFn_cases[where n = n] occ_stop)
  next
    case attr
    then show ?thesis
      by (simp add: traverse_node matchFn_cases[where n = n] split: prod.splits option.splits)
  next
    case other
    then show ?thesis
      by (cases "children n")
         (auto simp: traverse_node matchFn_cases[where n = n] occ_descend assms)
  qed
qed

lemma traverse_factor:
  "traverseTreeAsync (extractAttributes_matchFn yp cj k tree) n st =
     (case attributeOccurrences tree n of
        (ps, err) \<Rightarrow> ((case err of None \<Rightarrow> Inr () | Some e \<Rightarrow> Inl e),
                       foldl (\<lambda>st (name, val). storeAttribute yp cj k name val st) st ps))"
  "traverseChildren (extractAttributes_matchFn yp cj k tree) cs st =
     (case attributeOccurrencesIn tree cs of
        (ps, err) \<Rightarrow> ((case err of None \<Rightarrow> Inr () | Some e \<Rightarrow> Inl e),
                       foldl (\<lambda>st (name, val). storeAttribute yp cj k name val st) st ps))"
proof (induction n and cs arbitrary: st and st rule: tree_forest_induct)
  case (Leaf ty tx)
  show ?case by (rule traverse_factor_node) simp
next
  case (Node ty tx cs)
  show ?case by (rule traverse_factor_node) (use Node.IH in auto)
next
  case Nil
  show ?case by simp
next
  case (Cons c cs)
  show ?case
    by (simp add: Cons.IH split: prod.splits option.splits)
qed

lemma extractAttributes_factorisation:
  "extractAttributes yamlParse cleanupJSON kindOf tree =
     (case attributeOccurrences tree tree of
        (ps, err) \<Rightarrow>
          (let st = foldl (\<lambda>st (name, val). storeAttribute yamlParse cleanupJSON kindOf name val st)
                      \<lparr>attributes = Map.empty, prototype = ObjectPrototype, console = []\<rparr> ps
           in ((case err of None \<Rightarrow> Inr (attributes st, prototype st) | Some e \<Rightarrow> Inl e),
               console st)))"
  by (simp add: extractAttributes_def traverse_factor Let_def split: prod.splits option.splits)

lemma storeAttribute_failure:
  "yamlParse val = Inl e \<Longrightarrow>
     storeAttribute yamlParse cleanupJSON kindOf name val st = st\<lparr>console := console st @ [(val, e)]\<rparr>"
  by (simp add: storeAttribute_def)

lemma storeAttribute_success:
  "yamlParse val = Inr y \<Longrightarrow> cleanupJSON y = Inr v \<Longrightarrow> propertyKey name \<noteq> ''__proto__'' \<Longrightarrow>
     storeAttribute yamlParse cleanupJSON kindOf name val st =
       st\<lparr>attributes := (attributes st)(propertyKey name \<mapsto> v)\<rparr>"
  by (simp add: storeAttribute_def assignProperty_def)

lemma nested_list_item_skipped:
  "n \<noteq> tree \<Longrightarrow> type n = Some ''ListItem'' \<Longrightarrow>
     traverseTreeAsync (extractAttributes_matchFn yamlParse cleanupJSON kindOf tree) n st = (Inr (), st)"
  by (auto simp: traverse_factor occ_stop)

subsection \<open>The stand-ins, evaluated\<close>

lemma standIn_sel [simp]:
  "parseExpressionString standIn = standIn_parseExpressionString"
  "evalExpression standIn = (\<lambda>ast env sf w. (evalNameOrField ast env sf, Suc w))"
  "luaValueToJS standIn = (\<lambda>v sf w. (Inr v, w))"
  "parseMarkdown standIn = standIn_parseMarkdown"
  by (simp_all add: standIn_def)

lemma standIn_singleResult [simp]:
  "singleResult standIn (LuaString s) = LuaString s"
  "singleResult standIn LuaNil = LuaNil"
  "singleResult standIn (LuaNumber i) = LuaNumber i"
  by (simp_all add: standIn_def)

lemma standIn_luaToString [simp]:
  "luaToString standIn (LuaString s) w = (Inr s, w)"
  "luaToString standIn LuaNil w = (Inr ''nil'', w)"
  by (simp_all add: standIn_def)

lemma tree_sel [simp]:
  "type (textNode s) = None" "type (typedNode ty cs) = Some ty"
  "children (textNode s) = None" "children (typedNode ty cs) = Some cs"
  "text' (textNode s) = Some s" "text' (typedNode ty cs) = None"
  "renderToText (textNode s) = s" "renderToText (typedNode ty cs) = concat (map renderToText cs)"
  "nodes (textNode s) = [textNode s]"
  "nodes (typedNode ty cs) = typedNode ty cs # concat (map nodes cs)"
  by (simp_all add: textNode_def typedNode_def)

lemma replace_sel [simp]:
  "replaceNodesMatchingAsync f (textNode s) w = (Inr (textNode s), w)"
  "replaceNodesMatchingAsync f (typedNode ty cs) w =
     (case replaceChildren f cs w of
        (Inl e, w') \<Rightarrow> (Inl e, w')
      | (Inr cs', w') \<Rightarrow> (Inr (typedNode ty cs'), w'))"
  by (simp_all add: textNode_def typedNode_def split: prod.splits sum.splits)

lemma directive_sel [simp]:
  "findNodeOfType (typedNode ''LuaDirective''
       [textNode ''${'', typedNode ''LuaExpressionDirective'' [textNode expr], textNode ''}''])
     ''LuaExpressionDirective'' = Some (typedNode ''LuaExpressionDirective'' [textNode expr])"
  by (simp add: findNodeOfType_def typedNode_def textNode_def)

lemma frame_sel [simp]:
  "createAugmentedEnv frameWithoutGlobal aug = Inl (Error ''_GLOBAL not defined'')"
  "createAugmentedEnv frameWithGlobal None =
     Inr (LuaEnv [] (Some (LuaEnv [(''s'', LuaString ''${x}'')] None)))"
  by (simp_all add: createAugmentedEnv_def frameWithoutGlobal_def frameWithGlobal_def)

lemma evaluate_s:
  "evaluateExpression standIn frameWithGlobal ''s'' None w = (Inr (directiveDocument ''x''), Suc w)"
  by (simp add: evaluateExpression_def evaluateExpression_try_def
        standIn_parseExpressionString_def standIn_parseMarkdown_def)


lemma substitute_plain [simp]:
  "substituteFn c sf aug (textNode s) w = (Inr None, w)"
  "ty \<noteq> ''LuaDirective'' \<Longrightarrow> ty \<noteq> ''Escape'' \<Longrightarrow> ty \<noteq> ''WikiLinkPage'' \<Longrightarrow>
     substituteFn c sf aug (typedNode ty cs) w = (Inr None, w)"
  by (simp_all add: substituteFn_other)

lemma traced_apply [simp]:
  "traced f n (w, tr) = (case f n w of (r, w') \<Rightarrow> (r, (w', tr @ [(n, w, r, w')])))"
  by (simp add: traced_def)

lemma substitute_directive:
  "substituteFn c sf aug (typedNode ''LuaDirective''
       [textNode ''${'', typedNode ''LuaExpressionDirective'' [textNode expr], textNode ''}'']) w =
     (case evaluateExpression c sf expr aug w of
        (Inl e, w') \<Rightarrow> (Inl e, w')
      | (Inr fragment, w') \<Rightarrow> (Inr (Some fragment), w'))"
  by (simp add: substituteFn_def)

lemma subtreeAt_sel [simp]:
  "subtreeAt (i # p) (typedNode ty cs) = (if i < length cs then subtreeAt p (cs ! i) else None)"
  "subtreeAt (i # p) (textNode s) = None"
  by (simp_all add: typedNode_def textNode_def)

lemma directiveExpressionNode_sel [simp]:
  "directiveExpressionNode c (textNode s) = None"
  "ty \<noteq> ''LuaDirective'' \<Longrightarrow> ty \<noteq> ''WikiLinkPage'' \<Longrightarrow>
     directiveExpressionNode c (typedNode ty cs) = None"
  "directiveExpressionNode c (typedNode ''LuaDirective''
       [textNode ''${'', typedNode ''LuaExpressionDirective'' [textNode expr], textNode ''}''])
     = Some (typedNode ''LuaExpressionDirective'' [textNode expr])"
  "directiveExpressionNode standIn (typedNode ''WikiLinkPage'' [textNode ''${s}''])
     = Some (typedNode ''LuaExpressionDirective'' [textNode ''s''])"
  by (simp_all add: directiveExpressionNode_def standIn_parseMarkdown_def directiveDocument_def
        findNodeOfType_def typedNode_def textNode_def)

lemma matched_sel [simp]:
  "ty \<noteq> ''LuaDirective'' \<Longrightarrow> ty \<noteq> ''WikiLinkPage'' \<Longrightarrow> ty \<noteq> ''Escape'' \<Longrightarrow>
     \<not> matched c (typedNode ty cs)"
  by (simp add: matched_def)

lemma strict_prefix_Cons_iff:
  "strict_prefix q (x # xs) \<longleftrightarrow> q = [] \<or> (\<exists>q'. q = x # q' \<and> strict_prefix q' xs)"
  by (cases q) auto

lemma render_directiveDocument [simp]:
  "renderToText (directiveDocument expr) = ''${'' @ expr @ ''}''"
  by (simp add: directiveDocument_def)

lemma wikilink_run:
  "replaceNodesMatchingAsync (substituteFn standIn frameWithGlobal None)
     (typedNode ''Document'' [typedNode ''Paragraph''
        [typedNode ''WikiLink''
           [typedNode ''WikiLinkMark'' [textNode ''[[''],
            typedNode ''WikiLinkPage'' [textNode ''${s}''],
            typedNode ''WikiLinkMark'' [textNode '']]'']]]]) 0 =
   (Inr (typedNode ''Document'' [typedNode ''Paragraph''
        [typedNode ''WikiLink''
           [typedNode ''WikiLinkMark'' [textNode ''[[''],
            directiveDocument ''x'',
            typedNode ''WikiLinkMark'' [textNode '']]'']]]]), 1)"
  by (simp add: substituteFn_directive evaluate_s)

lemma evaluate_s_logged:
  "evaluateExpression (logged standIn) frameWithGlobal ''s'' None (w, lg) =
     (Inr (directiveDocument ''x''), Suc w, lg @ [Variable ''s''])"
  by (simp add: evaluateExpression_def evaluateExpression_try_def
        standIn_parseExpressionString_def standIn_parseMarkdown_def)

lemma directiveExpressions_example:
  "directiveExpressions standIn (directiveDocument ''s'') = [Variable ''s'']"
  by (simp add: directiveExpressions_def directiveExpression_def directiveDocument_def
        descendants_def standIn_parseExpressionString_def)

lemma attr_sel [simp]:
  "findNodeOfType (attributeNode name val) ''AttributeName'' = Some (typedNode ''AttributeName'' [textNode name])"
  "findNodeOfType (attributeNode name val) ''AttributeValue'' = Some (typedNode ''AttributeValue'' [textNode val])"
  "type (attributeNode name val) = Some ''Attribute''"
  "firstChildText (typedNode ty (textNode s # cs)) = Inr (Some s)"
  by (simp_all add: attributeNode_def findNodeOfType_def typedNode_def textNode_def firstChildText_def)

lemma traverse_sel [simp]:
  "traverseTreeAsync f (typedNode ty cs) st =
     (case f (typedNode ty cs) st of
        (Inl e, st') \<Rightarrow> (Inl e, st')
      | (Inr stop, st') \<Rightarrow> if stop then (Inr (), st') else traverseChildren f cs st')"
  by (simp add: typedNode_def)

lemma tree_neq [simp]:
  "ty \<noteq> ty' \<Longrightarrow> typedNode ty cs \<noteq> typedNode ty' cs'"
  "typedNode ''Document'' cs \<noteq> attributeNode name val"
  by (simp_all add: typedNode_def attributeNode_def)

lemma traverse_attribute [simp]:
  "traverseTreeAsync (extractAttributes_matchFn yp cj k tree) (attributeNode name val) st =
     (Inr (), storeAttribute yp cj k (Some name) (Some val) st)"
  by (simp add: traverse_node extractAttributes_matchFn_def)

lemma matchFn_sel [simp]:
  "ty \<noteq> ''ListItem'' \<Longrightarrow> ty \<noteq> ''Attribute'' \<Longrightarrow>
     extractAttributes_matchFn yp cj k tree (typedNode ty cs) st = (Inr False, st)"
  "tree \<noteq> typedNode ''ListItem'' cs \<Longrightarrow>
     extractAttributes_matchFn yp cj k tree (typedNode ''ListItem'' cs) st = (Inr True, st)"
  by (simp_all add: extractAttributes_matchFn_def)

lemma example_run:
  "extractAttributes standIn_yamlParse Inr (\<lambda>v. PrimitiveValue) exampleAttributeTree =
     (Inr ([''a'' \<mapsto> ''1'', ''d'' \<mapsto> ''4''], ObjectPrototype),
      [(Some ''['', OtherError ''YAMLError'' ''unexpected end of the stream'')])"
  by (simp add: extractAttributes_def exampleAttributeTree_def storeAttribute_def
        assignProperty_def standIn_yamlParse_def propertyKey_def)

section \<open>Properties of space\_lua.ts\<close>




text \<open>
  C2.  Whatever stage of \<^verbatim>\<open>evaluateExpression\<close> raises an error (parsing the expression,
  building the scope, evaluating, converting the value, producing its string, re-parsing that
  string as a document fragment), the caller receives a \<^verbatim>\<open>LuaRuntimeError\<close> whose message is
  \<^verbatim>\<open>Error evaluating "<expr>": <message of the cause>\<close>, and no other kind of error leaves
  the function.
\<close>

theorem evaluateExpression_uniform_error:
  "(\<forall>err w'. evaluateExpression c sf expr aug w = (Inl err, w') \<longrightarrow>
       (\<exists>cause. err = LuaRuntimeError (errorEvaluating expr cause) sf))
   \<and> (parseExpressionString c expr = Inl e \<longrightarrow>
        evaluateExpression c sf expr aug w = (Inl (LuaRuntimeError (errorEvaluating expr e) sf), w))
   \<and> (parseExpressionString c expr = Inr ast \<and> createAugmentedEnv sf aug = Inl e \<longrightarrow>
        evaluateExpression c sf expr aug w = (Inl (LuaRuntimeError (errorEvaluating expr e) sf), w))
   \<and> (parseExpressionString c expr = Inr ast \<and> createAugmentedEnv sf aug = Inr env \<and>
        evalExpression c ast env sf w = (Inl e, w1) \<longrightarrow>
        evaluateExpression c sf expr aug w = (Inl (LuaRuntimeError (errorEvaluating expr e) sf), w1))
   \<and> (parseExpressionString c expr = Inr ast \<and> createAugmentedEnv sf aug = Inr env \<and>
        evalExpression c ast env sf w = (Inr v, w1) \<and>
        luaValueToJS c (singleResult c v) sf w1 = (Inl e, w2) \<longrightarrow>
        evaluateExpression c sf expr aug w = (Inl (LuaRuntimeError (errorEvaluating expr e) sf), w2))
   \<and> (parseExpressionString c expr = Inr ast \<and> createAugmentedEnv sf aug = Inr env \<and>
        evalExpression c ast env sf w = (Inr v, w1) \<and>
        luaValueToJS c (singleResult c v) sf w1 = (Inr j, w2) \<and>
        luaToString c j w2 = (Inl e, w3) \<longrightarrow>
        evaluateExpression c sf expr aug w = (Inl (LuaRuntimeError (errorEvaluating expr e) sf), w3))
   \<and> (parseExpressionString c expr = Inr ast \<and> createAugmentedEnv sf aug = Inr env \<and>
        evalExpression c ast env sf w = (Inr v, w1) \<and>
        luaValueToJS c (singleResult c v) sf w1 = (Inr j, w2) \<and>
        luaToString c j w2 = (Inr s, w3) \<and> parseMarkdown c s = Inl e \<longrightarrow>
        evaluateExpression c sf expr aug w = (Inl (LuaRuntimeError (errorEvaluating expr e) sf), w3))"
  unfolding evaluateExpression_def evaluateExpression_try_def
  by (auto split: sum.splits prod.splits)

theorem evaluateExpression_uniform_error_witness:
  \<open>standIn_parseExpressionString ''1+'' = Inl (OtherError ''ParseError'' ''unexpected symbol'') \<and>
   evaluateExpression standIn frameWithGlobal ''1+'' None 0 =
     (Inl (LuaRuntimeError ''Error evaluating "1+": unexpected symbol'' frameWithGlobal), 0)\<close>
  using evaluateExpression_uniform_error
          [where c = standIn and sf = frameWithGlobal and expr = "''1+''" and aug = None
             and w = 0 and e = "OtherError ''ParseError'' ''unexpected symbol''"]
  by (simp add: standIn_parseExpressionString_def)



text \<open>
  C4 (as amended).  \<^verbatim>\<open>createAugmentedEnv\<close> with an augmentation binds every top-level key of
  the augmentation to its value as a local of the new scope, whose parent is the global scope;
  and, when the augmentation has no key \<^verbatim>\<open>"_"\<close> of its own, the whole augmentation is bound
  under \<^verbatim>\<open>"_"\<close>.  Names that are neither keys nor \<^verbatim>\<open>"_"\<close> fall back to the global scope.
\<close>

theorem augmentation_bindings:
  assumes "createAugmentedEnv sf (Some aug) = Inr env"
  shows "(\<forall>k \<in> set (keys aug). get env k = Some (rawGet aug k))
       \<and> (''_'' \<notin> set (keys aug) \<longrightarrow> get env ''_'' = Some (LuaTable aug))
       \<and> (\<exists>globalEnv. map_of (threadLocal sf) ''_GLOBAL'' = Some globalEnv \<and>
            parent env = Some globalEnv \<and>
            (\<forall>k. k \<notin> set (keys aug) \<longrightarrow> k \<noteq> ''_'' \<longrightarrow> get env k = get globalEnv k))"
proof -
  from assms obtain globalEnv where g: "map_of (threadLocal sf) ''_GLOBAL'' = Some globalEnv"
    by (auto simp: createAugmentedEnv_def split: option.splits)
  have env: "env = LuaEnv (fold (\<lambda>k. AList.update k (rawGet aug k)) (keys aug) [(''_'', LuaTable aug)])
                     (Some globalEnv)"
    using assms by (simp add: createAugmentedEnv_def g fold_setLocal)
  show ?thesis
    unfolding env using g by (simp add: map_of_fold_update)
qed

text \<open>
  For the augmentation \<^verbatim>\<open>{x: 5}\<close> both \<^verbatim>\<open>x\<close> and \<^verbatim>\<open>_.x\<close> evaluate to 5.
\<close>

theorem augmentation_bindings_witness:
  "createAugmentedEnv frameWithGlobal (Some [(''x'', LuaNumber 5)]) =
     Inr (LuaEnv [(''_'', LuaTable [(''x'', LuaNumber 5)]), (''x'', LuaNumber 5)]
            (Some (LuaEnv [(''s'', LuaString ''${x}'')] None))) \<and>
   get (LuaEnv [(''_'', LuaTable [(''x'', LuaNumber 5)]), (''x'', LuaNumber 5)]
            (Some (LuaEnv [(''s'', LuaString ''${x}'')] None))) ''x'' = Some (LuaNumber 5) \<and>
   get (LuaEnv [(''_'', LuaTable [(''x'', LuaNumber 5)]), (''x'', LuaNumber 5)]
            (Some (LuaEnv [(''s'', LuaString ''${x}'')] None))) ''_'' =
     Some (LuaTable [(''x'', LuaNumber 5)]) \<and>
   spaceluaApi_evalExpression standIn frameWithGlobal (Variable ''x'')
     (Some [(''x'', LuaNumber 5)]) 0 = (Inr (LuaNumber 5), 1) \<and>
   spaceluaApi_evalExpression standIn frameWithGlobal (PropertyAccess (Variable ''_'') ''x'')
     (Some [(''x'', LuaNumber 5)]) 0 = (Inr (LuaNumber 5), 1)"
  using augmentation_bindings
          [where sf = frameWithGlobal and aug = "[(''x'', LuaNumber 5)]"
             and env = "LuaEnv [(''_'', LuaTable [(''x'', LuaNumber 5)]), (''x'', LuaNumber 5)]
                          (Some (LuaEnv [(''s'', LuaString ''${x}'')] None))"]
  by (simp add: createAugmentedEnv_def frameWithGlobal_def keys_def rawGet_def
        spaceluaApi_evalExpression_def)

text \<open>
  The claim as first stated fails for an augmentation with a key \<^verbatim>\<open>"_"\<close>: the loop over the
  keys runs after \<^verbatim>\<open>setLocal("_", envAugmentation)\<close> and overwrites it, so \<^verbatim>\<open>_\<close> is the value
  of that key and not the augmentation.
\<close>

theorem augmentation_underscore_counterexample:
  "createAugmentedEnv frameWithGlobal (Some [(''_'', LuaNumber 7)]) =
     Inr (LuaEnv [(''_'', LuaNumber 7)] (Some (LuaEnv [(''s'', LuaString ''${x}'')] None))) \<and>
   get (LuaEnv [(''_'', LuaNumber 7)] (Some (LuaEnv [(''s'', LuaString ''${x}'')] None))) ''_''
     = Some (LuaNumber 7) \<and>
   get (LuaEnv [(''_'', LuaNumber 7)] (Some (LuaEnv [(''s'', LuaString ''${x}'')] None))) ''_''
     \<noteq> Some (LuaTable [(''_'', LuaNumber 7)]) \<and>
   spaceluaApi_evalExpression standIn frameWithGlobal (PropertyAccess (Variable ''_'') ''_'')
     (Some [(''_'', LuaNumber 7)]) 0 =
     (Inl (LuaRuntimeError ''attempt to index a non-table value'' frameWithGlobal), 1)"
  by (simp add: createAugmentedEnv_def frameWithGlobal_def keys_def rawGet_def
        spaceluaApi_evalExpression_def)

text \<open>
  C5.  An \<^verbatim>\<open>Escape\<close> node whose rendered text is the two characters \<^verbatim>\<open>\$\<close> is replaced by the
  parse of the one-character text \<^verbatim>\<open>$\<close>, which takes the node's place among its siblings;
  so the template \<^verbatim>\<open>\$\<close>, parsed as a paragraph holding that escape, is interpolated to \<^verbatim>\<open>$\<close>
  when the parse of \<^verbatim>\<open>$\<close> renders as \<^verbatim>\<open>$\<close>.
\<close>

theorem escaped_marker_becomes_marker:
  "(type n = Some ''Escape'' \<and> renderToText n = [CHR 0x5C, CHR ''$''] \<and>
    parseMarkdown c ''$'' = Inr fragment \<longrightarrow>
      substituteFn c sf aug n w = (Inr (Some fragment), w) \<and>
      replaceChildren (substituteFn c sf aug) (n # rest) w =
        (case replaceChildren (substituteFn c sf aug) rest w of
           (Inl e, w') \<Rightarrow> (Inl e, w')
         | (Inr rest', w') \<Rightarrow> (Inr (fragment # rest'), w')))
   \<and> (parseMarkdown c [CHR 0x5C, CHR ''$''] =
          Inr (typedNode ''Document'' [typedNode ''Paragraph''
                 [typedNode ''Escape'' [textNode [CHR 0x5C, CHR ''$'']]]]) \<and>
        parseMarkdown c ''$'' = Inr fragment \<and> renderToText fragment = ''$'' \<longrightarrow>
      interpolateLuaString c sf [CHR 0x5C, CHR ''$''] aug w = (Inr ''$'', w))"
proof -
  have a: "substituteFn c sf aug n w = (Inr (Some fragment), w)"
    if "type n = Some ''Escape''" "renderToText n = [CHR 0x5C, CHR ''$'']"
       "parseMarkdown c ''$'' = Inr fragment" for n w
    using that by (simp add: substituteFn_def)
  have b: "interpolateLuaString c sf [CHR 0x5C, CHR ''$''] aug w = (Inr ''$'', w)"
    if p: "parseMarkdown c [CHR 0x5C, CHR ''$''] =
          Inr (typedNode ''Document'' [typedNode ''Paragraph''
                 [typedNode ''Escape'' [textNode [CHR 0x5C, CHR ''$'']]]])"
      and f: "parseMarkdown c ''$'' = Inr fragment" and r: "renderToText fragment = ''$''"
  proof -
    have 1: "substituteFn c sf aug (typedNode ''Paragraph''
                 [typedNode ''Escape'' [textNode [CHR 0x5C, CHR ''$'']]]) w = (Inr None, w)"
      by (simp add: substituteFn_other)
    have 2: "substituteFn c sf aug (typedNode ''Escape'' [textNode [CHR 0x5C, CHR ''$'']]) w
               = (Inr (Some fragment), w)"
      by (rule a) (simp_all add: f)
    have "replaceNodesMatchingAsync (substituteFn c sf aug)
            (typedNode ''Document'' [typedNode ''Paragraph''
                 [typedNode ''Escape'' [textNode [CHR 0x5C, CHR ''$'']]]]) w
          = (Inr (typedNode ''Document'' [typedNode ''Paragraph'' [fragment]]), w)"
      using 1 2 by (simp add: typedNode_def)
    then show ?thesis by (simp add: interpolateLuaString_def p r)
  qed
  show ?thesis using a b by simp
qed

theorem escaped_marker_becomes_marker_witness:
  "interpolateLuaString standIn frameWithoutGlobal [CHR 0x5C, CHR ''$''] None 0 = (Inr ''$'', 0)"
  using escaped_marker_becomes_marker
          [where c = standIn and sf = frameWithoutGlobal and aug = None and w = 0
             and fragment = "typedNode ''Document'' [typedNode ''Paragraph'' [textNode ''$'']]"]
  by (simp add: standIn_parseMarkdown_def)

text \<open>
  C6.  When the parse tree of a template holds no \<^verbatim>\<open>LuaDirective\<close>, \<^verbatim>\<open>Escape\<close> or
  \<^verbatim>\<open>WikiLinkPage\<close> node, \<^verbatim>\<open>interpolateLuaString\<close> substitutes nothing, leaves the world as
  it was and returns the rendering of the parse of the template.
\<close>

theorem interpolate_passthrough:
  assumes "parseMarkdown c s = Inr parsed"
    and "\<forall>n \<in> set (nodes parsed).
           type n \<noteq> Some ''LuaDirective'' \<and> type n \<noteq> Some ''Escape'' \<and>
           type n \<noteq> Some ''WikiLinkPage''"
  shows "interpolateLuaString c sf s aug w = (Inr (renderToText parsed), w)"
proof -
  have "replaceNodesMatchingAsync (substituteFn c sf aug) parsed w = (Inr parsed, w)"
    by (rule replace_unchanged) (use assms(2) in \<open>simp add: nodes_eq[of parsed] substituteFn_other\<close>)
  then show ?thesis by (simp add: interpolateLuaString_def assms(1))
qed

theorem interpolate_passthrough_witness:
  "standIn_parseMarkdown ''hello'' =
     Inr (typedNode ''Document'' [typedNode ''Paragraph'' [textNode ''hello'']]) \<and>
   interpolateLuaString standIn frameWithoutGlobal ''hello'' None 0 = (Inr ''hello'', 0)"
  using interpolate_passthrough
          [of standIn "''hello''" "typedNode ''Document'' [typedNode ''Paragraph'' [textNode ''hello'']]"
              frameWithoutGlobal None 0]
  by (simp add: standIn_parseMarkdown_def)

text \<open>
  C7.  \<^verbatim>\<open>evaluateExpression\<close> succeeds with a fragment exactly when the expression parses, the
  scope is built, the evaluation returns a value, the single result of that value converts to
  a host value, the host value has a string form, and the fragment is the parse of that string
  by the document grammar.  And whenever \<^verbatim>\<open>interpolateLuaString\<close> returns a string, it is the
  rendering of a tree that, at the position of every directive of the parsed template that the
  traversal reaches (a \<^verbatim>\<open>LuaDirective\<close> with an expression node, or a \<^verbatim>\<open>WikiLinkPage\<close> whose text
  holds one, with no substituted node above it), holds such a fragment: the parse of the string
  form of the converted single result of an evaluation of the directive's expression.
\<close>

theorem directive_fragment_is_reparsed_string:
  "(evaluateExpression c sf expr aug w = (Inr fragment, w') \<longleftrightarrow>
      (\<exists>ast env v j s w1 w2.
         parseExpressionString c expr = Inr ast \<and>
         createAugmentedEnv sf aug = Inr env \<and>
         evalExpression c ast env sf w = (Inr v, w1) \<and>
         luaValueToJS c (singleResult c v) sf w1 = (Inr j, w2) \<and>
         luaToString c j w2 = (Inr s, w') \<and>
         parseMarkdown c s = Inr fragment))
   \<and> (parseMarkdown c template = Inr parsed \<and>
       interpolateLuaString c sf template aug w = (Inr out, w') \<and>
       subtreeAt p parsed = Some n \<and> p \<noteq> [] \<and>
       (\<forall>q m. q \<noteq> [] \<and> strict_prefix q p \<and> subtreeAt q parsed = Some m \<longrightarrow> \<not> matched c m) \<and>
       directiveExpressionNode c n = Some expressionNode \<longrightarrow>
      (\<exists>parsed' spliced ast env v j s w0 w1 w2 w3.
         replaceNodesMatchingAsync (substituteFn c sf aug) parsed w = (Inr parsed', w') \<and>
         out = renderToText parsed' \<and>
         subtreeAt p parsed' = Some spliced \<and>
         parseExpressionString c (renderToText expressionNode) = Inr ast \<and>
         createAugmentedEnv sf aug = Inr env \<and>
         evalExpression c ast env sf w0 = (Inr v, w1) \<and>
         luaValueToJS c (singleResult c v) sf w1 = (Inr j, w2) \<and>
         luaToString c j w2 = (Inr s, w3) \<and>
         parseMarkdown c s = Inr spliced))"
proof (intro conjI impI; (elim conjE)?)
  show "evaluateExpression c sf expr aug w = (Inr fragment, w') \<longleftrightarrow>
      (\<exists>ast env v j s w1 w2.
         parseExpressionString c expr = Inr ast \<and>
         createAugmentedEnv sf aug = Inr env \<and>
         evalExpression c ast env sf w = (Inr v, w1) \<and>
         luaValueToJS c (singleResult c v) sf w1 = (Inr j, w2) \<and>
         luaToString c j w2 = (Inr s, w') \<and>
         parseMarkdown c s = Inr fragment)"
    by (rule evaluateExpression_Inr)
next
  assume parse: "parseMarkdown c template = Inr parsed"
    and res: "interpolateLuaString c sf template aug w = (Inr out, w')"
    and at: "subtreeAt p parsed = Some n" and p: "p \<noteq> []"
    and anc: "\<forall>q m. q \<noteq> [] \<and> strict_prefix q p \<and> subtreeAt q parsed = Some m \<longrightarrow> \<not> matched c m"
    and dir: "directiveExpressionNode c n = Some expressionNode"
  from res parse obtain parsed' where
    run: "replaceNodesMatchingAsync (substituteFn c sf aug) parsed w = (Inr parsed', w')"
    and out: "out = renderToText parsed'"
    by (auto simp: interpolateLuaString_def split: prod.splits sum.splits)
  have "\<exists>w0 w1 r. substituteFn c sf aug n w0 = (Inr r, w1) \<and>
         (case r of
            Some fragment \<Rightarrow> subtreeAt p parsed' = Some fragment
          | None \<Rightarrow> (\<exists>n' w2. replaceNodesMatchingAsync (substituteFn c sf aug) n w1 = (Inr n', w2) \<and>
                        subtreeAt p parsed' = Some n'))"
  proof (rule replace_at_path[OF at p _ run])
    fix q m v fragment v''
    assume "q \<noteq> []" "strict_prefix q p" "subtreeAt q parsed = Some m"
    with anc have "\<not> matched c m" by blast
    then show "substituteFn c sf aug m v \<noteq> (Inr (Some fragment), v'')"
      by (rule substituteFn_unmatched)
  qed
  then obtain w0 w3 r where cb: "substituteFn c sf aug n w0 = (Inr r, w3)"
    and pos: "case r of
            Some fragment \<Rightarrow> subtreeAt p parsed' = Some fragment
          | None \<Rightarrow> (\<exists>n' w2. replaceNodesMatchingAsync (substituteFn c sf aug) n w3 = (Inr n', w2) \<and>
                        subtreeAt p parsed' = Some n')"
    by blast
  from cb substituteFn_directive[OF dir, of sf aug w0] obtain spliced where
    ev: "evaluateExpression c sf (renderToText expressionNode) aug w0 = (Inr spliced, w3)"
    and r: "r = Some spliced"
    by (auto split: prod.splits sum.splits)
  from pos r have "subtreeAt p parsed' = Some spliced" by simp
  with run out ev[unfolded evaluateExpression_Inr]
  show "\<exists>parsed' spliced ast env v j s w0 w1 w2 w3.
         replaceNodesMatchingAsync (substituteFn c sf aug) parsed w = (Inr parsed', w') \<and>
         out = renderToText parsed' \<and>
         subtreeAt p parsed' = Some spliced \<and>
         parseExpressionString c (renderToText expressionNode) = Inr ast \<and>
         createAugmentedEnv sf aug = Inr env \<and>
         evalExpression c ast env sf w0 = (Inr v, w1) \<and>
         luaValueToJS c (singleResult c v) sf w1 = (Inr j, w2) \<and>
         luaToString c j w2 = (Inr s, w3) \<and>
         parseMarkdown c s = Inr spliced"
    by blast
qed

text \<open>
  A directive inside a wiki link: the page node is replaced by the parse of \<^verbatim>\<open>${x}\<close>, the
  string that the expression \<^verbatim>\<open>s\<close> evaluates to.
\<close>

theorem directive_fragment_is_reparsed_string_witness:
  "interpolateLuaString standIn frameWithGlobal ''[[${s}]]'' None 0 = (Inr ''[[${x}]]'', 1) \<and>
   subtreeAt [0, 0, 1]
     (typedNode ''Document'' [typedNode ''Paragraph''
        [typedNode ''WikiLink''
           [typedNode ''WikiLinkMark'' [textNode ''[[''],
            typedNode ''WikiLinkPage'' [textNode ''${s}''],
            typedNode ''WikiLinkMark'' [textNode '']]'']]]])
     = Some (typedNode ''WikiLinkPage'' [textNode ''${s}'']) \<and>
   (\<exists>parsed' spliced ast env v j s w0 w1 w2 w3.
      replaceNodesMatchingAsync (substituteFn standIn frameWithGlobal None)
        (typedNode ''Document'' [typedNode ''Paragraph''
           [typedNode ''WikiLink''
              [typedNode ''WikiLinkMark'' [textNode ''[[''],
               typedNode ''WikiLinkPage'' [textNode ''${s}''],
               typedNode ''WikiLinkMark'' [textNode '']]'']]]]) 0 = (Inr parsed', 1) \<and>
      ''[[${x}]]'' = renderToText parsed' \<and>
      subtreeAt [0, 0, 1] parsed' = Some spliced \<and>
      parseExpressionString standIn ''s'' = Inr ast \<and>
      createAugmentedEnv frameWithGlobal None = Inr env \<and>
      evalExpression standIn ast env frameWithGlobal w0 = (Inr v, w1) \<and>
      luaValueToJS standIn (singleResult standIn v) frameWithGlobal w1 = (Inr j, w2) \<and>
      luaToString standIn j w2 = (Inr s, w3) \<and>
      parseMarkdown standIn s = Inr spliced)"
proof -
  let ?T = "typedNode ''Document'' [typedNode ''Paragraph''
        [typedNode ''WikiLink''
           [typedNode ''WikiLinkMark'' [textNode ''[[''],
            typedNode ''WikiLinkPage'' [textNode ''${s}''],
            typedNode ''WikiLinkMark'' [textNode '']]'']]]]"
  have parse: "parseMarkdown standIn ''[[${s}]]'' = Inr ?T"
    by (simp add: standIn_parseMarkdown_def)
  have res: "interpolateLuaString standIn frameWithGlobal ''[[${s}]]'' None 0 = (Inr ''[[${x}]]'', 1)"
    unfolding interpolateLuaString_def parse by (simp add: wikilink_run del: replace_sel)
  have at: "subtreeAt [0, 0, 1] ?T = Some (typedNode ''WikiLinkPage'' [textNode ''${s}''])"
    by simp
  have anc: "\<forall>q m. q \<noteq> [] \<and> strict_prefix q [0, 0, 1] \<and> subtreeAt q ?T = Some m \<longrightarrow>
               \<not> matched standIn m"
    by (auto simp: strict_prefix_Cons_iff)
  have dir: "directiveExpressionNode standIn (typedNode ''WikiLinkPage'' [textNode ''${s}''])
               = Some (typedNode ''LuaExpressionDirective'' [textNode ''s''])"
    by simp
  from directive_fragment_is_reparsed_string
          [where c = standIn and sf = frameWithGlobal and aug = None and w = 0 and w' = 1
             and template = "''[[${s}]]''" and out = "''[[${x}]]''" and p = "[0, 0, 1]"
             and parsed = ?T
             and n = "typedNode ''WikiLinkPage'' [textNode ''${s}'']"
             and expressionNode = "typedNode ''LuaExpressionDirective'' [textNode ''s'']",
           THEN conjunct2] parse res at anc dir
  have "\<exists>parsed' spliced ast env v j s w0 w1 w2 w3.
      replaceNodesMatchingAsync (substituteFn standIn frameWithGlobal None) ?T 0 = (Inr parsed', 1) \<and>
      ''[[${x}]]'' = renderToText parsed' \<and>
      subtreeAt [0, 0, 1] parsed' = Some spliced \<and>
      parseExpressionString standIn (renderToText (typedNode ''LuaExpressionDirective'' [textNode ''s''])) = Inr ast \<and>
      createAugmentedEnv frameWithGlobal None = Inr env \<and>
      evalExpression standIn ast env frameWithGlobal w0 = (Inr v, w1) \<and>
      luaValueToJS standIn (singleResult standIn v) frameWithGlobal w1 = (Inr j, w2) \<and>
      luaToString standIn j w2 = (Inr s, w3) \<and>
      parseMarkdown standIn s = Inr spliced"
    by blast
  then have "\<exists>parsed' spliced ast env v j s w0 w1 w2 w3.
      replaceNodesMatchingAsync (substituteFn standIn frameWithGlobal None) ?T 0 = (Inr parsed', 1) \<and>
      ''[[${x}]]'' = renderToText parsed' \<and>
      subtreeAt [0, 0, 1] parsed' = Some spliced \<and>
      parseExpressionString standIn ''s'' = Inr ast \<and>
      createAugmentedEnv frameWithGlobal None = Inr env \<and>
      evalExpression standIn ast env frameWithGlobal w0 = (Inr v, w1) \<and>
      luaValueToJS standIn (singleResult standIn v) frameWithGlobal w1 = (Inr j, w2) \<and>
      luaToString standIn j w2 = (Inr s, w3) \<and>
      parseMarkdown standIn s = Inr spliced"
    by (simp only: tree_sel concat.simps map_append list.map append_Nil2)
  with res at show ?thesis by blast
qed

text \<open>
  C8.  Run with collaborators that log what the evaluator is handed, \<^verbatim>\<open>interpolateLuaString\<close>
  returns what it returns without the log, and the log is a subsequence of the parsed
  expressions of the directives of the parsed template, in document order: every evaluation
  made during the call is that of a directive of the template, each directive is evaluated at
  most once, and what an evaluation has produced is not evaluated again.
\<close>

theorem spliced_content_is_not_rescanned:
  assumes "parseMarkdown c template = Inr parsed"
    and "interpolateLuaString (logged c) sf template aug (w, []) = (r, w', lg)"
  shows "interpolateLuaString c sf template aug w = (r, w')
       \<and> subseq lg (directiveExpressions c parsed)
       \<and> length lg \<le> length (directiveExpressions c parsed)"
proof -
  from logged_traversal(1)[of "substituteFn (logged c) sf aug" "substituteFn c sf aug"
         "directiveExpression c" parsed w "[]", OF substituteFn_logged]
  obtain l where
    run: "replaceNodesMatchingAsync (substituteFn (logged c) sf aug) parsed (w, []) =
            (fst (replaceNodesMatchingAsync (substituteFn c sf aug) parsed w),
             snd (replaceNodesMatchingAsync (substituteFn c sf aug) parsed w), [] @ l)"
    and l: "subseq l (concat (map (directiveExpression c) (descendants parsed)))"
    by blast
  from assms(2) run have "lg = l"
    and res: "interpolateLuaString c sf template aug w = (r, w')"
    by (auto simp: interpolateLuaString_def assms(1) split: prod.splits sum.splits)
  with l have s: "subseq lg (directiveExpressions c parsed)"
    by (simp add: directiveExpressions_def)
  from s have "length lg \<le> length (directiveExpressions c parsed)"
    by (rule list_emb_length)
  with s res show ?thesis by simp
qed

text \<open>
  A directive whose value is the text \<^verbatim>\<open>${x}\<close>: the fragment holds a directive node, which
  is left as it is; the evaluator has run once, on \<^verbatim>\<open>s\<close>.
\<close>

theorem spliced_content_is_not_rescanned_witness:
  "findNodeOfType (directiveDocument ''x'') ''LuaDirective'' \<noteq> None \<and>
   interpolateLuaString (logged standIn) frameWithGlobal ''${s}'' None (0, []) =
     (Inr ''${x}'', 1, [Variable ''s'']) \<and>
   directiveExpressions standIn (directiveDocument ''s'') = [Variable ''s''] \<and>
   interpolateLuaString standIn frameWithGlobal ''${s}'' None 0 = (Inr ''${x}'', 1)"
proof -
  have parse: "parseMarkdown standIn ''${s}'' = Inr (directiveDocument ''s'')"
    by (simp add: standIn_parseMarkdown_def)
  have run: "interpolateLuaString (logged standIn) frameWithGlobal ''${s}'' None (0, []) =
     (Inr ''${x}'', 1, [Variable ''s''])"
    by (simp add: interpolateLuaString_def standIn_parseMarkdown_def substitute_directive
          evaluate_s_logged directiveDocument_def[of "''s''"])
  have frag: "findNodeOfType (directiveDocument ''x'') ''LuaDirective'' \<noteq> None"
    by (simp add: directiveDocument_def findNodeOfType_def typedNode_def textNode_def)
  from spliced_content_is_not_rescanned[OF parse run] frag run directiveExpressions_example
  show ?thesis by simp
qed

text \<open>
  C9.  \<^verbatim>\<open>baseUrl\<close> returns \<^verbatim>\<open>null\<close> where there is no \<^verbatim>\<open>location\<close> and otherwise the protocol,
  two slashes and the host; in both cases it returns normally and leaves the world unchanged.
\<close>

theorem baseUrl_total:
  "spaceluaApi_baseUrl None w = (Inr None, w) \<and>
   spaceluaApi_baseUrl (Some loc) w = (Inr (Some (protocol loc @ ''//'' @ host loc)), w)"
  by (simp add: spaceluaApi_baseUrl_def)

section \<open>Properties of attribute.ts\<close>

text \<open>
  C10.  An attribute named \<^verbatim>\<open>__proto__\<close> is lost.  In the document with the attributes
  \<^verbatim>\<open>__proto__\<close> (value \<^verbatim>\<open>1\<close>) and \<^verbatim>\<open>b\<close> (value \<^verbatim>\<open>2\<close>) both values parse, yet the assignment
  \<^verbatim>\<open>attributes[name] = ...\<close> for the first reaches the setter that the plain object inherits,
  which ignores a primitive: the returned object has the property \<^verbatim>\<open>b\<close> only, and nothing has
  been written to the console.  Attributes of other names are stored, failing ones are
  logged, and list items below the root are not entered, as the facts on the attribute
  traversal above say.
\<close>

theorem extractAttributes_drops_proto_attribute:
  "standIn_yamlParse (Some ''1'') = Inr ''1'' \<and>
   extractAttributes standIn_yamlParse Inr (\<lambda>v. PrimitiveValue) protoAttributeTree =
     (Inr ([''b'' \<mapsto> ''2''], ObjectPrototype), [])"
  by (simp add: extractAttributes_def protoAttributeTree_def storeAttribute_def
        assignProperty_def protoSetterInherited_def standIn_yamlParse_def propertyKey_def)

end
